theory Spec2Isabelle
  imports Main "HOL-Library.Product_Lexorder"
begin

section \<open>The Dockerfile generator (generate/generator/generate.go)\<close>

text \<open>
  A shallow embedding of the variant resolver of \<^verbatim>\<open>generate.go\<close>: the construction of a
  \<^verbatim>\<open>DockerfileVariant\<close> in \<^verbatim>\<open>generateOneDockerfile\<close>, the version arithmetic of
  \<^verbatim>\<open>intVer\<close>, the OS-version lookup \<^verbatim>\<open>ubuntuVersion\<close>, the package file and URL
  functions, the checksum fetch \<^verbatim>\<open>getSHA256\<close> and the skip filter of the batch mode.

  Go strings are byte strings; they are modelled as \<^typ>\<open>string\<close> (a list of bytes). Version,
  product and edition strings are taken to be ASCII, so that a rune is a byte.
  A run that ends in a runtime panic or in \<^verbatim>\<open>log.Fatalf\<close> is the \<open>Inl\<close> branch of a sum.
\<close>

subsection \<open>Errors\<close>

datatype error =
    RuntimePanic        \<comment> \<open>index out of range, or an explicit \<^verbatim>\<open>panic\<close>\<close>
  | LogFatal            \<comment> \<open>\<^verbatim>\<open>log.Fatalf\<close>: the process exits\<close>

definition bindE :: "error + 'a \<Rightarrow> ('a \<Rightarrow> error + 'b) \<Rightarrow> error + 'b" where
  "bindE m f = (case m of Inl e \<Rightarrow> Inl e | Inr x \<Rightarrow> f x)"

subsection \<open>The functions of package \<^verbatim>\<open>strings\<close> that the generator calls\<close>

text \<open>\<^verbatim>\<open>strings.Split(s, sep)\<close> for a separator of one byte: never empty.\<close>

primrec Split :: "string \<Rightarrow> char \<Rightarrow> string list" where
  "Split [] sep = [[]]"
| "Split (c # cs) sep =
     (if c = sep then [] # Split cs sep
      else (case Split cs sep of [] \<Rightarrow> [[c]] | x # xs \<Rightarrow> (c # x) # xs))"

definition HasPrefix :: "string \<Rightarrow> string \<Rightarrow> bool" where
  "HasPrefix s p = (take (length p) s = p)"

definition HasSuffix :: "string \<Rightarrow> string \<Rightarrow> bool" where
  "HasSuffix s suf = (length suf \<le> length s \<and> drop (length s - length suf) s = suf)"

definition TrimSuffix :: "string \<Rightarrow> string \<Rightarrow> string" where
  "TrimSuffix s suf = (if HasSuffix s suf then take (length s - length suf) s else s)"

primrec Contains :: "string \<Rightarrow> string \<Rightarrow> bool" where
  "Contains [] sub = (sub = [])"
| "Contains (c # cs) sub = (HasPrefix (c # cs) sub \<or> Contains cs sub)"

text \<open>\<^verbatim>\<open>strings.ToLower\<close> on ASCII.\<close>

definition lowerChar :: "char \<Rightarrow> char" where
  "lowerChar c =
     (let n = (of_char c :: nat) in if 65 \<le> n \<and> n \<le> 90 then char_of (n + 32) else c)"

definition ToLower :: "string \<Rightarrow> string" where
  "ToLower s = map lowerChar s"

subsection \<open>\<^verbatim>\<open>strconv.ParseInt(s, 10, 64)\<close>\<close>

datatype NumError = ErrSyntax | ErrRange

definition isDigit :: "char \<Rightarrow> bool" where
  "isDigit c = (let n = (of_char c :: nat) in 48 \<le> n \<and> n \<le> 57)"

definition digitVal :: "char \<Rightarrow> int" where
  "digitVal c = int (of_char c) - 48"

definition maxUint64 :: int where
  "maxUint64 = 18446744073709551615"

text \<open>
  The loop of \<^verbatim>\<open>ParseUint\<close> in base 10: a byte that is not a decimal digit is a syntax
  error with value 0; an overflow of the 64-bit accumulator is a range error with the
  largest value. \<open>n\<close> is the accumulator.
\<close>

primrec ParseUint_loop :: "int \<Rightarrow> string \<Rightarrow> int \<times> NumError option" where
  "ParseUint_loop n [] = (n, None)"
| "ParseUint_loop n (c # cs) =
     (if \<not> isDigit c then (0, Some ErrSyntax)
      else if n \<ge> maxUint64 div 10 + 1 then (maxUint64, Some ErrRange)
      else if n * 10 + digitVal c > maxUint64 then (maxUint64, Some ErrRange)
      else ParseUint_loop (n * 10 + digitVal c) cs)"

definition ParseUint :: "string \<Rightarrow> int \<times> NumError option" where
  "ParseUint s = (if s = [] then (0, Some ErrSyntax) else ParseUint_loop 0 s)"

text \<open>The value and the error of \<^verbatim>\<open>ParseInt\<close>: Go returns both.\<close>

definition ParseInt :: "string \<Rightarrow> int \<times> NumError option" where
  "ParseInt s0 =
     (if s0 = [] then (0, Some ErrSyntax)
      else
        let neg = (hd s0 = CHR ''-'');
            s = (if hd s0 = CHR ''+'' \<or> hd s0 = CHR ''-'' then tl s0 else s0);
            (un, err) = ParseUint s;
            cutoff = (9223372036854775808 :: int)
        in if err = Some ErrSyntax then (0, err)
           else if \<not> neg \<and> un \<ge> cutoff then (cutoff - 1, Some ErrRange)
           else if neg \<and> un > cutoff then (- cutoff, Some ErrRange)
           else (if neg then - un else un, None))"

subsection \<open>\<^verbatim>\<open>intVer\<close>\<close>

text \<open>\<^verbatim>\<open>fmt.Sprintf("%02s", s)\<close>: zeros on the left up to width 2.\<close>

definition pad02 :: "string \<Rightarrow> string" where
  "pad02 s = replicate (2 - length s) (CHR ''0'') @ s"

text \<open>
  \<^verbatim>\<open>intVer\<close> reads \<^verbatim>\<open>sections[0]\<close>, \<^verbatim>\<open>sections[1]\<close> and \<^verbatim>\<open>sections[2]\<close>: with fewer
  than three sections the index is out of range and the program panics. Otherwise it
  returns what \<^verbatim>\<open>ParseInt\<close> returns, value and error.
\<close>

definition intVer :: "string \<Rightarrow> error + (int \<times> NumError option)" where
  "intVer v =
     (case Split v (CHR ''-'') of
        [] \<Rightarrow> Inl RuntimePanic
      | baseVer # _ \<Rightarrow>
          (let sections = Split baseVer (CHR ''.'') in
           if length sections < 3 then Inl RuntimePanic
           else Inr (ParseInt (pad02 (sections ! 0) @ pad02 (sections ! 1) @ pad02 (sections ! 2)))))"



subsection \<open>Editions, products, architectures, variants\<close>

type_synonym Edition = string
type_synonym Product = string
type_synonym Arch = string

definition EditionEnterprise :: Edition where "EditionEnterprise = ''enterprise''"
definition EditionCommunity :: Edition where "EditionCommunity = ''community''"

definition ProductServer :: Product where "ProductServer = ''couchbase-server''"
definition ProductSyncGw :: Product where "ProductSyncGw = ''sync-gateway''"
definition ProductSandbox :: Product where "ProductSandbox = ''server-sandbox''"
definition ProductColumnar :: Product where "ProductColumnar = ''couchbase-columnar''"
definition ProductEdgeServer :: Product where "ProductEdgeServer = ''couchbase-edge-server''"
definition ProductEnterpriseAnalytics :: Product where
  "ProductEnterpriseAnalytics = ''enterprise-analytics''"

definition Archamd64 :: Arch where "Archamd64 = ''amd64''"
definition Archarm64 :: Arch where "Archarm64 = ''arm64''"
definition Archgeneric :: Arch where "Archgeneric = ''@@ARCH@@''"

record DockerfileVariant =
  Edition :: Edition
  Product :: Product
  Version :: string
  TargetVersion :: string
  TemplateFilename :: string
  Arches :: "Arch list"
  IsStaging :: bool
  OutputDir :: string
  TemplateOverrides :: "string \<rightharpoonup> string"

subsection \<open>\<^verbatim>\<open>generateOneDockerfile\<close>: the construction of the variant\<close>

text \<open>
  The variant that \<^verbatim>\<open>generateOneDockerfile\<close> hands to \<^verbatim>\<open>generateVariant\<close>. The error of
  \<^verbatim>\<open>intVer\<close> is discarded (\<^verbatim>\<open>productVer, _ := intVer(variant.Version)\<close>); its panic is not.
\<close>

definition generateOneDockerfile ::
  "Edition \<Rightarrow> Product \<Rightarrow> string \<Rightarrow> string \<Rightarrow> (string \<rightharpoonup> string) \<Rightarrow> error + DockerfileVariant"
where
  "generateOneDockerfile edition product ver outputDir overrides =
     (let variant = \<lparr>
            Edition = edition,
            Product = product,
            Version = TrimSuffix ver ''-staging'',
            TargetVersion = TrimSuffix ver ''-staging'',
            TemplateFilename = ''Dockerfile.template'',
            Arches = [Archamd64],
            IsStaging = HasSuffix ver ''-staging'',
            OutputDir = outputDir,
            TemplateOverrides = overrides \<rparr>
      in bindE (intVer (Version variant)) (\<lambda>(productVer, _).
        Inr (
          if product = ProductServer then
            (let variant1 = (if productVer = 70003 then variant\<lparr>Version := ''7.0.3-MP1''\<rparr>
                             else variant)
             in if productVer \<ge> 70100
                then variant1\<lparr>Arches := Arches variant1 @ [Archarm64]\<rparr>
                else variant1)
          else if product = ProductSyncGw then
            (if productVer \<le> 30003
             then variant\<lparr>TemplateFilename := ''Dockerfile.centos.template''\<rparr>
             else variant\<lparr>TemplateFilename := ''Dockerfile.ubuntu.template'',
                          Arches := Arches variant @ [Archarm64]\<rparr>)
          else if product = ProductSandbox then
            (if productVer \<ge> 71000
             then variant\<lparr>Arches := Arches variant @ [Archarm64]\<rparr>
             else variant)
          else if product = ProductColumnar \<or> product = ProductEnterpriseAnalytics then
            variant\<lparr>Arches := Arches variant @ [Archarm64]\<rparr>
          else variant)))"

subsection \<open>Version parsing and constraints (package \<^verbatim>\<open>hashicorp/go-version\<close>)\<close>

text \<open>
  \<^verbatim>\<open>ubuntuVersion\<close> parses the version with \<^verbatim>\<open>version.NewVersion\<close> and tests it against
  constraints built by \<^verbatim>\<open>version.NewConstraint\<close>. The library is not part of the
  repository; what follows models the part of it that the generator reaches.

  \<^verbatim>\<open>NewVersion\<close> accepts an optional \<^verbatim>\<open>v\<close>, then decimal segments separated by dots, then
  an optional pre-release part (dot-separated identifiers over letters, digits, \<^verbatim>\<open>-\<close> and
  \<^verbatim>\<open>~\<close>, the first one not starting with a digit, a leading \<^verbatim>\<open>-\<close> being the separator),
  then an optional metadata part after \<^verbatim>\<open>+\<close>. Each segment is read by \<^verbatim>\<open>ParseInt\<close>, and
  fewer than three segments are padded with zeros.
\<close>

record GoVersion =
  segments :: "int list"
  pre :: string

definition isAlpha :: "char \<Rightarrow> bool" where
  "isAlpha c = (let n = (of_char c :: nat) in (65 \<le> n \<and> n \<le> 90) \<or> (97 \<le> n \<and> n \<le> 122))"

definition isIdentChar :: "char \<Rightarrow> bool" where
  "isIdentChar c = (isDigit c \<or> isAlpha c \<or> c = CHR ''-'' \<or> c = CHR ''~'')"

primrec allIdents :: "string list \<Rightarrow> bool" where
  "allIdents [] = True"
| "allIdents (x # xs) = (x \<noteq> [] \<and> filter (\<lambda>c. \<not> isIdentChar c) x = [] \<and> allIdents xs)"

primrec allNumeric :: "string list \<Rightarrow> bool" where
  "allNumeric [] = True"
| "allNumeric (x # xs) = (x \<noteq> [] \<and> filter (\<lambda>c. \<not> isDigit c) x = [] \<and> allNumeric xs)"

primrec parseSegments :: "string list \<Rightarrow> int list option" where
  "parseSegments [] = Some []"
| "parseSegments (x # xs) =
     (case ParseInt x of
        (val, None) \<Rightarrow> (case parseSegments xs of None \<Rightarrow> None | Some vals \<Rightarrow> Some (val # vals))
      | (val, Some err) \<Rightarrow> None)"

definition NewVersion :: "string \<Rightarrow> GoVersion option" where
  "NewVersion v =
     (let s = (if v \<noteq> [] \<and> hd v = CHR ''v'' then tl v else v);
          num = takeWhile (\<lambda>c. isDigit c \<or> c = CHR ''.'') s;
          rest = dropWhile (\<lambda>c. isDigit c \<or> c = CHR ''.'') s;
          preS = takeWhile (\<lambda>c. c \<noteq> CHR ''+'') rest;
          metaS = dropWhile (\<lambda>c. c \<noteq> CHR ''+'') rest;
          segmentsStr = Split num (CHR ''.'')
      in if \<not> allNumeric segmentsStr then None
         else if preS \<noteq> [] \<and> (isDigit (hd preS) \<or> \<not> allIdents (Split preS (CHR ''.''))) then None
         else if metaS \<noteq> [] \<and> \<not> allIdents (Split (tl metaS) (CHR ''.'')) then None
         else (case parseSegments segmentsStr of
                 None \<Rightarrow> None
               | Some segs \<Rightarrow>
                   Some \<lparr> segments = segs @ replicate (3 - length segs) 0,
                          pre = (if preS \<noteq> [] \<and> hd preS = CHR ''-'' \<and> tl preS \<noteq> []
                                    \<and> isIdentChar (hd (tl preS))
                                 then tl preS else preS) \<rparr>))"

text \<open>
  \<^verbatim>\<open>Version.Compare\<close> on the segments: the lists may differ in length, and a missing
  segment counts as zero.
\<close>

primrec allZero :: "int list \<Rightarrow> bool" where
  "allZero [] = True"
| "allZero (x # xs) = (x = 0 \<and> allZero xs)"

fun compareSegments :: "int list \<Rightarrow> int list \<Rightarrow> int" where
  "compareSegments [] [] = 0"
| "compareSegments [] (y # ys) = (if allZero (y # ys) then 0 else -1)"
| "compareSegments (x # xs) [] = (if allZero (x # xs) then 0 else 1)"
| "compareSegments (x # xs) (y # ys) =
     (if x = y then compareSegments xs ys else if x < y then -1 else 1)"

text \<open>
  The constraints of the generator are comparisons with plain numeric versions. For such
  a constraint the library first rejects every version that has a pre-release part
  (\<^verbatim>\<open>prereleaseCheck\<close>), then compares the segments.
\<close>

datatype ConstraintOp = GreaterThanEqual | LessThan | LessThanEqual

type_synonym Constraints = "(ConstraintOp \<times> int list) list"

primrec parseConstraints :: "(ConstraintOp \<times> string) list \<Rightarrow> Constraints option" where
  "parseConstraints [] = Some []"
| "parseConstraints (c # cs) =
     (case NewVersion (snd c) of
        None \<Rightarrow> None
      | Some cv \<Rightarrow>
          (case parseConstraints cs of
             None \<Rightarrow> None
           | Some rest \<Rightarrow> Some ((fst c, segments cv) # rest)))"

definition NewConstraint :: "(ConstraintOp \<times> string) list \<Rightarrow> error + Constraints" where
  "NewConstraint cs = (case parseConstraints cs of None \<Rightarrow> Inl LogFatal | Some r \<Rightarrow> Inr r)"

definition constraintHolds :: "GoVersion \<Rightarrow> ConstraintOp \<times> int list \<Rightarrow> bool" where
  "constraintHolds v c =
     (pre v = [] \<and>
      (case fst c of
         GreaterThanEqual \<Rightarrow> compareSegments (segments v) (snd c) \<ge> 0
       | LessThan \<Rightarrow> compareSegments (segments v) (snd c) < 0
       | LessThanEqual \<Rightarrow> compareSegments (segments v) (snd c) \<le> 0))"

primrec Check :: "Constraints \<Rightarrow> GoVersion \<Rightarrow> bool" where
  "Check [] v = True"
| "Check (c # cs) v = (constraintHolds v c \<and> Check cs v)"

subsection \<open>\<^verbatim>\<open>ubuntuVersion\<close>\<close>

text \<open>
  The six constraints that \<^verbatim>\<open>ubuntuVersion\<close> builds for couchbase-server, under the
  names of its local variables. A constraint that does not parse is fatal.
\<close>

definition version4 :: "error + Constraints" where
  "version4 = NewConstraint [(GreaterThanEqual, ''4.0''), (LessThan, ''5.0'')]"

definition version5To6Dot0Dot0 :: "error + Constraints" where
  "version5To6Dot0Dot0 = NewConstraint [(GreaterThanEqual, ''5.0''), (LessThanEqual, ''6.0.0'')]"

definition version6Dot0Dot1To6Dot6Dot1 :: "error + Constraints" where
  "version6Dot0Dot1To6Dot6Dot1 =
     NewConstraint [(GreaterThanEqual, ''6.0.1''), (LessThanEqual, ''6.6.1'')]"

definition version6Dot6Dot2To7Dot1Dot6 :: "error + Constraints" where
  "version6Dot6Dot2To7Dot1Dot6 =
     NewConstraint [(GreaterThanEqual, ''6.6.2''), (LessThanEqual, ''7.1.6'')]"

definition version7Dot2Dot0To7Dot2Dot5 :: "error + Constraints" where
  "version7Dot2Dot0To7Dot2Dot5 =
     NewConstraint [(GreaterThanEqual, ''7.2.0''), (LessThanEqual, ''7.2.5'')]"

definition version7Dot6Dot0To7Dot6Dot1 :: "error + Constraints" where
  "version7Dot6Dot0To7Dot6Dot1 =
     NewConstraint [(GreaterThanEqual, ''7.6.0''), (LessThanEqual, ''7.6.1'')]"

text \<open>
  The version is parsed first, for every product, and a failure is fatal. For
  couchbase-server the six constraints are built, then tested in the order of the
  source; a version that satisfies none of them gets 24.04.
\<close>

definition ubuntuVersion :: "DockerfileVariant \<Rightarrow> error + string" where
  "ubuntuVersion variant =
     (case NewVersion (Version variant) of
        None \<Rightarrow> Inl LogFatal
      | Some v1 \<Rightarrow>
          if Product variant = ProductSyncGw then Inr ''22.04''
          else if Product variant = ProductEdgeServer then Inr ''22.04''
          else if Product variant = ProductColumnar then Inr ''22.04''
          else if Product variant = ProductEnterpriseAnalytics then Inr ''24.04''
          else if Product variant = ProductServer then
            bindE version4 (\<lambda>c4.
            bindE version5To6Dot0Dot0 (\<lambda>c5.
            bindE version6Dot0Dot1To6Dot6Dot1 (\<lambda>c601.
            bindE version6Dot6Dot2To7Dot1Dot6 (\<lambda>c662.
            bindE version7Dot2Dot0To7Dot2Dot5 (\<lambda>c720.
            bindE version7Dot6Dot0To7Dot6Dot1 (\<lambda>c760.
              if Check c4 v1 then Inr ''14.04''
              else if Check c5 v1 then Inr ''16.04''
              else if Check c601 v1 then Inr ''18.04''
              else if Check c662 v1 then Inr ''20.04''
              else if Check c720 v1 then Inr ''22.04''
              else if Check c760 v1 then Inr ''22.04''
              else Inr ''24.04''))))))
          else Inr [])"

text \<open>
  The ordered ranges of the lookup for couchbase-server, and membership of a parsed
  version in one of them.
\<close>

definition serverRanges :: "(error + Constraints) list" where
  "serverRanges =
     [version4, version5To6Dot0Dot0, version6Dot0Dot1To6Dot6Dot1,
      version6Dot6Dot2To7Dot1Dot6, version7Dot2Dot0To7Dot2Dot5, version7Dot6Dot0To7Dot6Dot1]"

definition inRange :: "GoVersion \<Rightarrow> error + Constraints \<Rightarrow> bool" where
  "inRange v r = (case r of Inl e \<Rightarrow> False | Inr cs \<Rightarrow> Check cs v)"

subsection \<open>Base image and the flags that depend on the version\<close>

text \<open>
  Each of these calls \<^verbatim>\<open>intVer\<close> and drops its error (\<^verbatim>\<open>productVer, _ := intVer(...)\<close>).
  An unexpected product is an explicit \<^verbatim>\<open>panic\<close>.
\<close>

definition dockerBaseImage :: "DockerfileVariant \<Rightarrow> error + string" where
  "dockerBaseImage variant =
     (if Product variant = ProductSyncGw then
        bindE (intVer (Version variant)) (\<lambda>(productVer, _).
          if Contains (Version variant) ''forestdb'' then Inr ''tleyden5iwx/forestdb''
          else if productVer \<le> 30003 then Inr ''centos:centos7''
          else bindE (ubuntuVersion variant) (\<lambda>u. Inr (''ubuntu:'' @ u)))
      else if Product variant = ProductEdgeServer then
        bindE (ubuntuVersion variant) (\<lambda>u. Inr (''ubuntu:'' @ u))
      else if Product variant = ProductServer then
        bindE (ubuntuVersion variant) (\<lambda>u. Inr (''ubuntu:'' @ u))
      else if Product variant = ProductSandbox then
        Inr (''couchbase/server:'' @ Version variant)
      else if Product variant = ProductColumnar then
        bindE (ubuntuVersion variant) (\<lambda>u. Inr (''ubuntu:'' @ u))
      else if Product variant = ProductEnterpriseAnalytics then
        bindE (ubuntuVersion variant) (\<lambda>u. Inr (''ubuntu:'' @ u))
      else Inl RuntimePanic)"

definition systemdWorkaround :: "DockerfileVariant \<Rightarrow> error + bool" where
  "systemdWorkaround variant =
     (if Product variant = ProductServer then
        bindE (intVer (Version variant)) (\<lambda>(ver, _). Inr (ver < 70000))
      else Inr False)"

definition isMadHatterOrNewer :: "DockerfileVariant \<Rightarrow> error + bool" where
  "isMadHatterOrNewer variant = bindE (intVer (Version variant)) (\<lambda>(ver, _). Inr (ver \<ge> 60500))"

subsection \<open>Package files and URLs\<close>

definition serverPackageFile :: "DockerfileVariant \<Rightarrow> Arch \<Rightarrow> error + string" where
  "serverPackageFile variant arch =
     bindE (intVer (Version variant)) (\<lambda>(serverVer, _).
       if serverVer \<ge> 70100 then
         Inr (Product variant @ ''-'' @ Edition variant @ ''_'' @ Version variant
              @ ''-linux_'' @ arch @ ''.deb'')
       else
         bindE (ubuntuVersion variant) (\<lambda>u.
           Inr (Product variant @ ''-'' @ Edition variant @ ''_'' @ Version variant
                @ ''-ubuntu'' @ u @ ''_amd64.deb'')))"

definition releaseURL :: "DockerfileVariant \<Rightarrow> string" where
  "releaseURL variant =
     (if Product variant = ProductServer then
        (if IsStaging variant
         then ''http://packages-staging.couchbase.com/releases/'' @ Version variant
         else ''https://packages.couchbase.com/releases/'' @ Version variant)
      else
        (if IsStaging variant
         then ''http://packages-staging.couchbase.com/releases/'' @ Product variant @ ''/''
              @ Version variant
         else ''https://packages.couchbase.com/releases/'' @ Product variant @ ''/''
              @ Version variant))"

subsection \<open>The customization table of sync-gateway\<close>

record VersionCustomization =
  PackageUrl :: string
  PackageFilename :: string

text \<open>The table as \<^verbatim>\<open>init\<close> fills it.\<close>

definition versionCustomizations :: "string \<rightharpoonup> VersionCustomization" where
  "versionCustomizations =
     Map.empty
       (''sync-gateway_community_2.0.0-devbuild'' \<mapsto>
          \<lparr> PackageUrl = ''http://cbmobile-packages.s3.amazonaws.com/couchbase-sync-gateway-community_2.0.0-827_x86_64.rpm'',
            PackageFilename = ''couchbase-sync-gateway-community_2.0.0-827_x86_64.rpm'' \<rparr>,
        ''sync-gateway_enterprise_2.0.0-devbuild'' \<mapsto>
          \<lparr> PackageUrl = ''http://cbmobile-packages.s3.amazonaws.com/couchbase-sync-gateway-enterprise_2.0.0-827_x86_64.rpm'',
            PackageFilename = ''couchbase-sync-gateway-enterprise_2.0.0-827_x86_64.rpm'' \<rparr>)"

definition versionCustomizationKey :: "DockerfileVariant \<Rightarrow> string" where
  "versionCustomizationKey variant =
     Product variant @ ''_'' @ Edition variant @ ''_'' @ Version variant"

text \<open>Go returns the value and whether the key exists; here \<open>None\<close> is a missing key.\<close>

definition versionCustomization :: "DockerfileVariant \<Rightarrow> VersionCustomization option" where
  "versionCustomization variant = versionCustomizations (versionCustomizationKey variant)"

definition sgPackageFilename :: "DockerfileVariant \<Rightarrow> error + string" where
  "sgPackageFilename variant =
     (case versionCustomization variant of
        Some custom \<Rightarrow> Inr (PackageFilename custom)
      | None \<Rightarrow>
          bindE (intVer (Version variant)) (\<lambda>(productVer, _).
            if productVer \<le> 30003 then
              Inr (''couchbase-sync-gateway-'' @ ToLower (Edition variant) @ ''_''
                   @ Version variant @ ''_@@ARCH@@.rpm'')
            else
              Inr (''couchbase-sync-gateway-'' @ ToLower (Edition variant) @ ''_''
                   @ Version variant @ ''_@@ARCH@@.deb'')))"

definition sgPackageUrl :: "DockerfileVariant \<Rightarrow> error + string" where
  "sgPackageUrl variant =
     (let packagesBaseUrl =
            (if IsStaging variant
             then ''http://packages-staging.couchbase.com/releases/couchbase-sync-gateway''
             else ''http://packages.couchbase.com/releases/couchbase-sync-gateway'')
      in case versionCustomization variant of
           Some custom \<Rightarrow> Inr (PackageUrl custom)
         | None \<Rightarrow>
             bindE (sgPackageFilename variant) (\<lambda>sgFileName.
               Inr (packagesBaseUrl @ ''/'' @ Version variant @ ''/'' @ sgFileName)))"

subsection \<open>The target directory\<close>

text \<open>
  \<^verbatim>\<open>path.Join\<close> of the Go library: the elements from the first non-empty one on are
  joined with slashes and cleaned; \<^verbatim>\<open>path.Clean\<close> drops empty and \<^verbatim>\<open>.\<close> elements and
  resolves \<^verbatim>\<open>..\<close> against the element before it.
\<close>

fun joinWith :: "string \<Rightarrow> string list \<Rightarrow> string" where
  "joinWith sep [] = []"
| "joinWith sep [x] = x"
| "joinWith sep (x # y # ys) = x @ sep @ joinWith sep (y # ys)"

text \<open>\<open>st\<close> is the stack of the elements kept so far, the last one first.\<close>

definition cleanStep :: "bool \<Rightarrow> string list \<Rightarrow> string \<Rightarrow> string list" where
  "cleanStep rooted st e =
     (if e = [] \<or> e = ''.'' then st
      else if e = ''..'' then
        (if st \<noteq> [] \<and> hd st \<noteq> ''..'' then tl st
         else if rooted then st
         else ''..'' # st)
      else e # st)"

definition Clean :: "string \<Rightarrow> string" where
  "Clean path =
     (if path = [] then ''.''
      else
        let rooted = (hd path = CHR ''/'');
            out = (if rooted then ''/'' else [])
                  @ joinWith ''/'' (rev (foldl (cleanStep rooted) [] (Split path (CHR ''/''))))
        in if out = [] then ''.'' else out)"

definition path_Join :: "string list \<Rightarrow> string" where
  "path_Join elem =
     (let es = dropWhile (\<lambda>e. e = []) elem
      in if es = [] then [] else Clean (joinWith ''/'' es))"

text \<open>\<open>baseDir\<close> is the global that \<^verbatim>\<open>main\<close> sets from the command line.\<close>

definition targetDir :: "string \<Rightarrow> DockerfileVariant \<Rightarrow> string" where
  "targetDir baseDir variant =
     (if OutputDir variant \<noteq> [] then OutputDir variant
      else
        let version = (if IsStaging variant then TargetVersion variant @ ''-staging''
                       else TargetVersion variant)
        in path_Join [baseDir, Edition variant, Product variant, version])"

definition dockerfile :: "string \<Rightarrow> DockerfileVariant \<Rightarrow> string" where
  "dockerfile baseDir variant = path_Join [targetDir baseDir variant, ''Dockerfile'']"

subsection \<open>\<^verbatim>\<open>getSHA256\<close>\<close>

text \<open>
  The network is a parameter: what a GET of a URL yields. \<^verbatim>\<open>http.Get\<close> of the empty URL
  fails before any request is sent (the URL has no protocol scheme), whatever the
  network does.
\<close>

datatype HttpBody = ReadError | Body string

datatype HttpResult = GetError | Response int HttpBody

type_synonym Network = "string \<Rightarrow> HttpResult"

definition http_Get :: "Network \<Rightarrow> string \<Rightarrow> HttpResult" where
  "http_Get net url = (if url = [] then GetError else net url)"

text \<open>
  \<^verbatim>\<open>strings.Fields\<close> splits a string around the runs of white space, where white space
  is what \<^verbatim>\<open>unicode.IsSpace\<close> says of the runes of the string. The runes are decoded from
  UTF-8 as Go does it: a byte that starts no well-formed encoding is the rune U+FFFD of
  width one. \<open>decodeRune\<close> gives the first rune of a string and its width in bytes.
\<close>

definition decodeRune :: "string \<Rightarrow> nat \<times> nat" where
  "decodeRune s =
     (if s = [] then (65533, 0)
      else
        let n = length s; b0 = (of_char (s ! 0) :: nat) in
        if b0 < 128 then (b0, 1)
        else if b0 < 194 \<or> 244 < b0 then (65533, 1)
        else
          let sz = (if b0 < 224 then 2 else if b0 < 240 then 3 else 4 :: nat);
              lo = (if b0 = 224 then 160 else if b0 = 240 then 144 else 128 :: nat);
              hi = (if b0 = 237 then 159 else if b0 = 244 then 143 else 191 :: nat)
          in if n < sz then (65533, 1)
             else
               let b1 = (of_char (s ! 1) :: nat) in
               if b1 < lo \<or> hi < b1 then (65533, 1)
               else if sz = 2 then ((b0 mod 32) * 64 + b1 mod 64, 2)
               else
                 let b2 = (of_char (s ! 2) :: nat) in
                 if b2 < 128 \<or> 191 < b2 then (65533, 1)
                 else if sz = 3 then ((b0 mod 16) * 4096 + (b1 mod 64) * 64 + b2 mod 64, 3)
                 else
                   let b3 = (of_char (s ! 3) :: nat) in
                   if b3 < 128 \<or> 191 < b3 then (65533, 1)
                   else ((b0 mod 8) * 262144 + (b1 mod 64) * 4096 + (b2 mod 64) * 64
                         + b3 mod 64, 4))"

text \<open>The runes of a string, each with the bytes that encode it.\<close>

fun runes :: "string \<Rightarrow> (nat \<times> string) list" where
  "runes [] = []"
| "runes (c # cs) =
     (let r = decodeRune (c # cs)
      in (fst r, take (snd r) (c # cs)) # runes (drop (snd r - 1) cs))"

text \<open>
  \<^verbatim>\<open>unicode.IsSpace\<close>: tab to carriage return, space, U+0085, U+00A0, U+1680, U+2000 to
  U+200A, U+2028, U+2029, U+202F, U+205F and U+3000.
\<close>

definition IsSpace :: "nat \<Rightarrow> bool" where
  "IsSpace r =
     ((9 \<le> r \<and> r \<le> 13) \<or> r = 32 \<or> r = 133 \<or> r = 160 \<or> r = 5760
      \<or> (8192 \<le> r \<and> r \<le> 8202) \<or> r = 8232 \<or> r = 8233 \<or> r = 8239 \<or> r = 8287
      \<or> r = 12288)"

primrec fieldsOfRunes :: "(nat \<times> string) list \<Rightarrow> string list" where
  "fieldsOfRunes [] = []"
| "fieldsOfRunes (x # xs) =
     (if IsSpace (fst x) then fieldsOfRunes xs
      else (case xs of
              [] \<Rightarrow> [snd x]
            | y # _ \<Rightarrow>
                if IsSpace (fst y) then snd x # fieldsOfRunes xs
                else (case fieldsOfRunes xs of [] \<Rightarrow> [snd x] | w # ws \<Rightarrow> (snd x @ w) # ws)))"

definition Fields :: "string \<Rightarrow> string list" where
  "Fields s = fieldsOfRunes (runes s)"

text \<open>
  The URL is built for couchbase-server only and is empty otherwise. Indexing the
  fields of a body without any field panics.
\<close>

definition sha256url :: "DockerfileVariant \<Rightarrow> Arch \<Rightarrow> error + string" where
  "sha256url variant arch =
     (if Product variant = ''couchbase-server'' then
        bindE (serverPackageFile variant arch) (\<lambda>file.
          Inr (releaseURL variant @ ''/'' @ file @ ''.sha256''))
      else Inr [])"

definition getSHA256 :: "Network \<Rightarrow> DockerfileVariant \<Rightarrow> Arch \<Rightarrow> error + string" where
  "getSHA256 net variant arch =
     bindE (sha256url variant arch) (\<lambda>url.
       case http_Get net url of
         GetError \<Rightarrow> Inr ''MISSING_SHA256_ERROR''
       | Response status body \<Rightarrow>
           if status \<noteq> 200 then Inr ''MISSING_SHA256_ERROR''
           else (case body of
                   ReadError \<Rightarrow> Inr ''HTTP_ERROR''
                 | Body b \<Rightarrow>
                     (case Fields b of
                        [] \<Rightarrow> Inl RuntimePanic
                      | token # _ \<Rightarrow> Inr token)))"

subsection \<open>Regular expressions and the skip filter of the batch mode\<close>

text \<open>
  The two patterns of the generator use literal bytes, byte classes, alternation and
  repetition. A pattern is matched against a whole string through its derivatives.
\<close>

datatype regex =
    Never
  | Empty
  | Chr char
  | Range char char
  | NotChr char
  | Cat regex regex
  | Alt regex regex
  | Star regex
  | Plus regex

primrec nullable :: "regex \<Rightarrow> bool" where
  "nullable Never = False"
| "nullable Empty = True"
| "nullable (Chr c) = False"
| "nullable (Range lo hi) = False"
| "nullable (NotChr c) = False"
| "nullable (Cat r s) = (nullable r \<and> nullable s)"
| "nullable (Alt r s) = (nullable r \<or> nullable s)"
| "nullable (Star r) = True"
| "nullable (Plus r) = nullable r"

primrec deriv :: "char \<Rightarrow> regex \<Rightarrow> regex" where
  "deriv a Never = Never"
| "deriv a Empty = Never"
| "deriv a (Chr c) = (if a = c then Empty else Never)"
| "deriv a (Range lo hi) =
     (if (of_char lo :: nat) \<le> of_char a \<and> (of_char a :: nat) \<le> of_char hi then Empty else Never)"
| "deriv a (NotChr c) = (if a = c then Never else Empty)"
| "deriv a (Cat r s) =
     (if nullable r then Alt (Cat (deriv a r) s) (deriv a s) else Cat (deriv a r) s)"
| "deriv a (Alt r s) = Alt (deriv a r) (deriv a s)"
| "deriv a (Star r) = Cat (deriv a r) (Star r)"
| "deriv a (Plus r) = Cat (deriv a r) (Star r)"

definition MatchString :: "regex \<Rightarrow> string \<Rightarrow> bool" where
  "MatchString r s = nullable (foldl (\<lambda>r a. deriv a r) r s)"

text \<open>
  \<^verbatim>\<open>^(1\.|2\.0\.).+$\<close>: anchored at both ends; the dot matches any byte but a newline.
\<close>

definition skipSyncGw :: regex where
  "skipSyncGw =
     Cat (Alt (Cat (Chr (CHR ''1'')) (Chr (CHR ''.'')))
              (Cat (Chr (CHR ''2'')) (Cat (Chr (CHR ''.'')) (Cat (Chr (CHR ''0'')) (Chr (CHR ''.''))))))
         (Plus (NotChr (CHR 0x0A)))"

type_synonym ProductVersionFilter = "Product \<rightharpoonup> regex"

definition skipGeneration :: ProductVersionFilter where
  "skipGeneration = Map.empty (ProductSyncGw \<mapsto> skipSyncGw)"

definition Matches :: "ProductVersionFilter \<Rightarrow> Product \<Rightarrow> string \<Rightarrow> bool" where
  "Matches fltr product version =
     (case fltr product of None \<Rightarrow> False | Some r \<Rightarrow> MatchString r version)"

subsection \<open>The batch mode\<close>

definition default_editions :: "Edition list" where
  "default_editions = [EditionCommunity, EditionEnterprise]"

definition default_products :: "Product list" where
  "default_products =
     [ProductServer, ProductSyncGw, ProductSandbox, ProductColumnar, ProductEdgeServer,
      ProductEnterpriseAnalytics]"

text \<open>
  The glob \<^verbatim>\<open>[0-9]*.[0-9]*.[0-9]*\<close> of \<^verbatim>\<open>versionSubdirectories\<close>: a star matches any
  bytes but the path separator. The argument is the list of the names in the directory
  of one edition and product.
\<close>

definition versionDirGlobPattern :: regex where
  "versionDirGlobPattern =
     Cat (Range (CHR ''0'') (CHR ''9'')) (Cat (Star (NotChr (CHR ''/''))) (Cat (Chr (CHR ''.''))
    (Cat (Range (CHR ''0'') (CHR ''9'')) (Cat (Star (NotChr (CHR ''/''))) (Cat (Chr (CHR ''.''))
    (Cat (Range (CHR ''0'') (CHR ''9'')) (Star (NotChr (CHR ''/'')))))))))"

definition versionSubdirectories :: "string list \<Rightarrow> string list" where
  "versionSubdirectories names = filter (MatchString versionDirGlobPattern) names"

text \<open>
  What \<^verbatim>\<open>generateAllDockerfiles\<close> decides for each version directory, in the order of
  its loops: to skip it, or to call \<^verbatim>\<open>generateOneDockerfile\<close>. The first argument gives
  the names found under each edition and product.
\<close>

datatype BatchAction = Skipped | Generated

definition generateAllDockerfiles ::
  "(Edition \<Rightarrow> Product \<Rightarrow> string list) \<Rightarrow> (Edition \<times> Product \<times> string \<times> BatchAction) list"
where
  "generateAllDockerfiles dirs =
     concat (map (\<lambda>edition.
       concat (map (\<lambda>product.
         map (\<lambda>ver.
           (edition, product, ver,
            if Matches skipGeneration product ver then Skipped else Generated))
           (versionSubdirectories (dirs edition product)))
         default_products))
       default_editions)"

subsection \<open>The language of a pattern\<close>

text \<open>The strings a pattern denotes, to state what the matcher decides.\<close>

definition conc :: "string set \<Rightarrow> string set \<Rightarrow> string set" where
  "conc A B = {u @ v | u v. u \<in> A \<and> v \<in> B}"

inductive_set star :: "string set \<Rightarrow> string set" for A :: "string set" where
  star_empty: "[] \<in> star A"
| star_more: "u \<in> A \<Longrightarrow> v \<in> star A \<Longrightarrow> u @ v \<in> star A"

primrec lang :: "regex \<Rightarrow> string set" where
  "lang Never = {}"
| "lang Empty = {[]}"
| "lang (Chr c) = {[c]}"
| "lang (Range lo hi) = {[a] | a. (of_char lo :: nat) \<le> of_char a \<and> (of_char a :: nat) \<le> of_char hi}"
| "lang (NotChr c) = {[a] | a. a \<noteq> c}"
| "lang (Cat r s) = conc (lang r) (lang s)"
| "lang (Alt r s) = lang r \<union> lang s"
| "lang (Star r) = star (lang r)"
| "lang (Plus r) = conc (lang r) (star (lang r))"

section \<open>Properties\<close>

lemmas product_defs =
  ProductServer_def ProductSyncGw_def ProductSandbox_def ProductColumnar_def
  ProductEdgeServer_def ProductEnterpriseAnalytics_def

lemmas eval_defs =
  intVer_def ParseInt_def ParseUint_def pad02_def isDigit_def digitVal_def maxUint64_def
  TrimSuffix_def HasSuffix_def HasPrefix_def bindE_def

lemma bindE_simps: "bindE (Inr x) f = f x" "bindE (Inl e) f = Inl e"
  by (simp_all add: bindE_def)

subsection \<open>Architectures\<close>

text \<open>
  C1. For product server-sandbox the comment of the source promises arm64 from 7.1.0 on,
  as the branch of couchbase-server does with the threshold 70100. The sandbox branch
  compares with 71000, which is 7.10.0: for version 7.1.0, whose packed number is 70100,
  the architecture list of the sandbox variant is amd64 alone.
\<close>

theorem sandbox_7_1_0_has_no_arm64:
  "intVer ''7.1.0'' = Inr (70100, None) \<and>
   (\<exists>variant.
      generateOneDockerfile edition ProductSandbox ''7.1.0'' outputDir overrides = Inr variant
      \<and> Arches variant = [Archamd64] \<and> Archarm64 \<notin> set (Arches variant))"
  by (simp add: generateOneDockerfile_def eval_defs product_defs Archamd64_def Archarm64_def)

text \<open>
  C9. Whenever the version has the three sections that \<^verbatim>\<open>intVer\<close> reads, the variant is
  constructed, and its architecture list is not empty, starts with amd64, and is amd64
  alone or amd64 followed by arm64: every adjustment only appends.
\<close>

theorem arches_nonempty_with_amd64:
  assumes "intVer (TrimSuffix ver ''-staging'') = Inr r"
  shows "\<exists>variant.
           generateOneDockerfile edition product ver outputDir overrides = Inr variant
           \<and> Arches variant \<noteq> [] \<and> hd (Arches variant) = Archamd64
           \<and> Archamd64 \<in> set (Arches variant)
           \<and> (Arches variant = [Archamd64] \<or> Arches variant = [Archamd64, Archarm64])"
  using assms
  by (cases r) (simp add: generateOneDockerfile_def bindE_def Let_def)

theorem arches_nonempty_with_amd64_witness:
  "intVer (TrimSuffix ''7.6.0-staging'' ''-staging'') = Inr (70600, None) \<and>
   (\<exists>variant.
      generateOneDockerfile EditionEnterprise ProductServer ''7.6.0-staging'' [] Map.empty
        = Inr variant
      \<and> Arches variant \<noteq> [] \<and> hd (Arches variant) = Archamd64
      \<and> Archamd64 \<in> set (Arches variant)
      \<and> (Arches variant = [Archamd64] \<or> Arches variant = [Archamd64, Archarm64]))"
proof -
  have h: "intVer (TrimSuffix ''7.6.0-staging'' ''-staging'') = Inr (70600, None)"
    by (simp add: eval_defs)
  show ?thesis
    using h arches_nonempty_with_amd64 [OF h, of EditionEnterprise ProductServer "[]" Map.empty]
    by simp
qed

subsection \<open>The OS-version lookup\<close>

lemmas version_defs = NewVersion_def NewConstraint_def isDigit_def isAlpha_def isIdentChar_def
  ParseInt_def ParseUint_def digitVal_def maxUint64_def

lemma version4_eq: "version4 = Inr [(GreaterThanEqual, [4, 0, 0]), (LessThan, [5, 0, 0])]"
  by (simp add: version4_def version_defs)
lemma version5_eq: "version5To6Dot0Dot0 = Inr [(GreaterThanEqual, [5, 0, 0]), (LessThanEqual, [6, 0, 0])]"
  by (simp add: version5To6Dot0Dot0_def version_defs)
lemma version601_eq: "version6Dot0Dot1To6Dot6Dot1 = Inr [(GreaterThanEqual, [6, 0, 1]), (LessThanEqual, [6, 6, 1])]"
  by (simp add: version6Dot0Dot1To6Dot6Dot1_def version_defs)
lemma version662_eq: "version6Dot6Dot2To7Dot1Dot6 = Inr [(GreaterThanEqual, [6, 6, 2]), (LessThanEqual, [7, 1, 6])]"
  by (simp add: version6Dot6Dot2To7Dot1Dot6_def version_defs)
lemma version720_eq: "version7Dot2Dot0To7Dot2Dot5 = Inr [(GreaterThanEqual, [7, 2, 0]), (LessThanEqual, [7, 2, 5])]"
  by (simp add: version7Dot2Dot0To7Dot2Dot5_def version_defs)
lemma version760_eq: "version7Dot6Dot0To7Dot6Dot1 = Inr [(GreaterThanEqual, [7, 6, 0]), (LessThanEqual, [7, 6, 1])]"
  by (simp add: version7Dot6Dot0To7Dot6Dot1_def version_defs)

lemmas range_eqs = version4_eq version5_eq version601_eq version662_eq version720_eq version760_eq

lemma compareSegments_triple:
  "compareSegments [a, b, c] [x, y, z] =
     (if (a, b, c) = (x, y, z) then 0 else if (a, b, c) < (x, y, z) then -1 else 1)"
  by (auto simp: less_prod_def less_eq_prod_def)

lemma constraintHolds_triple:
  assumes "segments v = [a, b, c]" and "pre v = []"
  shows "constraintHolds v (GreaterThanEqual, [x, y, z]) \<longleftrightarrow> (x, y, z) \<le> (a, b, c)"
    and "constraintHolds v (LessThan, [x, y, z]) \<longleftrightarrow> (a, b, c) < (x, y, z)"
    and "constraintHolds v (LessThanEqual, [x, y, z]) \<longleftrightarrow> (a, b, c) \<le> (x, y, z)"
  using assms
  by (auto simp: constraintHolds_def compareSegments_triple simp del: compareSegments.simps)

lemma inRange_triple:
  assumes "segments v = [a, b, c]" and "pre v = []"
  shows "inRange v version4 \<longleftrightarrow> (4, 0, 0) \<le> (a, b, c) \<and> (a, b, c) < (5, 0, 0)"
    and "inRange v version5To6Dot0Dot0 \<longleftrightarrow> (5, 0, 0) \<le> (a, b, c) \<and> (a, b, c) \<le> (6, 0, 0)"
    and "inRange v version6Dot0Dot1To6Dot6Dot1 \<longleftrightarrow> (6, 0, 1) \<le> (a, b, c) \<and> (a, b, c) \<le> (6, 6, 1)"
    and "inRange v version6Dot6Dot2To7Dot1Dot6 \<longleftrightarrow> (6, 6, 2) \<le> (a, b, c) \<and> (a, b, c) \<le> (7, 1, 6)"
    and "inRange v version7Dot2Dot0To7Dot2Dot5 \<longleftrightarrow> (7, 2, 0) \<le> (a, b, c) \<and> (a, b, c) \<le> (7, 2, 5)"
    and "inRange v version7Dot6Dot0To7Dot6Dot1 \<longleftrightarrow> (7, 6, 0) \<le> (a, b, c) \<and> (a, b, c) \<le> (7, 6, 1)"
  by (simp_all only: inRange_def range_eqs sum.case Check.simps constraintHolds_triple [OF assms] simp_thms)

lemma ubuntuVersion_server:
  assumes "Product variant = ProductServer" and "NewVersion (Version variant) = Some v1"
  shows "ubuntuVersion variant = Inr (
           if inRange v1 version4 then ''14.04''
           else if inRange v1 version5To6Dot0Dot0 then ''16.04''
           else if inRange v1 version6Dot0Dot1To6Dot6Dot1 then ''18.04''
           else if inRange v1 version6Dot6Dot2To7Dot1Dot6 then ''20.04''
           else if inRange v1 version7Dot2Dot0To7Dot2Dot5 then ''22.04''
           else if inRange v1 version7Dot6Dot0To7Dot6Dot1 then ''22.04''
           else ''24.04'')"
  using assms
  by (simp add: ubuntuVersion_def product_defs inRange_def range_eqs bindE_def)

lemma triple_order_facts:
  "(4::int, 0::int, 0::int) < (5, 0, 0)" "(5::int, 0::int, 0::int) \<le> (6, 0, 0)"
  "(6::int, 0::int, 0::int) < (6, 0, 1)" "(6::int, 0::int, 1::int) \<le> (6, 6, 1)"
  "(6::int, 6::int, 1::int) < (6, 6, 2)" "(6::int, 6::int, 2::int) \<le> (7, 1, 6)"
  "(7::int, 1::int, 6::int) < (7, 2, 0)" "(7::int, 2::int, 0::int) \<le> (7, 2, 5)"
  "(7::int, 2::int, 5::int) < (7, 6, 0)" "(7::int, 6::int, 0::int) \<le> (7, 6, 1)"
  by (simp_all add: less_prod_def less_eq_prod_def)

lemma ranges_at_most_one:
  assumes "segments v = [a, b, c]" and "pre v = []" 
  shows "length (filter (inRange v) serverRanges) \<le> 1"
  using triple_order_facts
  apply (simp only: serverRanges_def filter.simps inRange_triple [OF assms])
  apply (auto simp del: less_eq_prod_simp less_prod_simp)
  done

lemma triple_discrete:
  fixes a b c :: int
  shows "(a, b, c) \<le> (6, 0, 0) \<or> (6, 0, 1) \<le> (a, b, c)"
    and "(a, b, c) \<le> (6, 6, 1) \<or> (6, 6, 2) \<le> (a, b, c)"
  by (auto simp: less_eq_prod_def)

lemma gap_linorder:
  fixes t :: "'a::linorder"
  assumes ord: "c4 < c5" "c5 \<le> c600" "c600 < c601" "c601 \<le> c661" "c661 < c662" "c662 \<le> c716"
        "c716 < c720" "c720 \<le> c725" "c725 < c760" "c760 \<le> c761"
    and d1: "t \<le> c600 \<or> c601 \<le> t" and d2: "t \<le> c661 \<or> c662 \<le> t"
  shows "(\<not> (c4 \<le> t \<and> t < c5) \<and> \<not> (c5 \<le> t \<and> t \<le> c600) \<and> \<not> (c601 \<le> t \<and> t \<le> c661)
          \<and> \<not> (c662 \<le> t \<and> t \<le> c716) \<and> \<not> (c720 \<le> t \<and> t \<le> c725) \<and> \<not> (c760 \<le> t \<and> t \<le> c761))
         \<longleftrightarrow> (t < c4 \<or> (c716 < t \<and> t < c720) \<or> (c725 < t \<and> t < c760) \<or> c761 < t)"
proof
  assume a: "\<not> (c4 \<le> t \<and> t < c5) \<and> \<not> (c5 \<le> t \<and> t \<le> c600) \<and> \<not> (c601 \<le> t \<and> t \<le> c661)
          \<and> \<not> (c662 \<le> t \<and> t \<le> c716) \<and> \<not> (c720 \<le> t \<and> t \<le> c725) \<and> \<not> (c760 \<le> t \<and> t \<le> c761)"
  show "t < c4 \<or> (c716 < t \<and> t < c720) \<or> (c725 < t \<and> t < c760) \<or> c761 < t"
  proof (rule ccontr)
    assume n: "\<not> ?thesis"
    then have 1: "c4 \<le> t" and 2: "t \<le> c716 \<or> c720 \<le> t" and 3: "t \<le> c725 \<or> c760 \<le> t" and 4: "t \<le> c761"
      by (auto simp: not_less)
    from a 1 have "c5 \<le> t" by (auto simp: not_less)
    with a have "c600 < t" by (auto simp: not_le)
    with d1 have "c601 \<le> t" by auto
    with a have "c661 < t" by (auto simp: not_le)
    with d2 have "c662 \<le> t" by auto
    with a have "c716 < t" by (auto simp: not_le)
    with 2 have "c720 \<le> t" by auto
    with a have "c725 < t" by (auto simp: not_le)
    with 3 have "c760 \<le> t" by auto
    with a 4 show False by auto
  qed
next
  assume g: "t < c4 \<or> (c716 < t \<and> t < c720) \<or> (c725 < t \<and> t < c760) \<or> c761 < t"
  from g show "\<not> (c4 \<le> t \<and> t < c5) \<and> \<not> (c5 \<le> t \<and> t \<le> c600) \<and> \<not> (c601 \<le> t \<and> t \<le> c661)
          \<and> \<not> (c662 \<le> t \<and> t \<le> c716) \<and> \<not> (c720 \<le> t \<and> t \<le> c725) \<and> \<not> (c760 \<le> t \<and> t \<le> c761)"
  proof (elim disjE conjE)
    assume "t < c4" then show ?thesis using ord by (intro conjI notI; elim conjE; order)
  next
    assume "c716 < t" "t < c720" then show ?thesis using ord by (intro conjI notI; elim conjE; order)
  next
    assume "c725 < t" "t < c760" then show ?thesis using ord by (intro conjI notI; elim conjE; order)
  next
    assume "c761 < t" then show ?thesis using ord by (intro conjI notI; elim conjE; order)
  qed
qed

lemma filter6_empty:
  "filter P [r1, r2, r3, r4, r5, r6] = [] \<longleftrightarrow>
     \<not> P r1 \<and> \<not> P r2 \<and> \<not> P r3 \<and> \<not> P r4 \<and> \<not> P r5 \<and> \<not> P r6"
  by (simp add: filter_empty_conv)

lemma ranges_none_iff:
  assumes "segments v = [a, b, c]" and "pre v = []"
  shows "filter (inRange v) serverRanges = [] \<longleftrightarrow>
           (a, b, c) < (4, 0, 0)
           \<or> ((7, 1, 6) < (a, b, c) \<and> (a, b, c) < (7, 2, 0))
           \<or> ((7, 2, 5) < (a, b, c) \<and> (a, b, c) < (7, 6, 0))
           \<or> (7, 6, 1) < (a, b, c)"
  unfolding serverRanges_def filter6_empty inRange_triple [OF assms]
  by (rule gap_linorder [OF triple_order_facts triple_discrete])

text \<open>
  C2. For a couchbase-server version that parses to the numeric triple
  \<open>(a, b, c)\<close> with no pre-release part (triples are compared lexicographically), the
  lookup returns the tag of the range that contains the triple: the ranges are inclusive
  at their bounds (only 5.0 is excluded from the first), so 7.1.6 gets 20.04 and 7.2.0
  gets 22.04, and no triple lies in two ranges. The ranges leave gaps: a triple below
  4.0.0, strictly between 7.1.6 and 7.2.0, strictly between 7.2.5 and 7.6.0, or above
  7.6.1 lies in no range, and exactly the triples in no range get 24.04.
\<close>

theorem server_os_version_ranges:
  assumes "Product variant = ProductServer"
      and "NewVersion (Version variant) = Some v1"
      and "segments v1 = [a, b, c]" and "pre v1 = []"
  shows "ubuntuVersion variant = Inr (
           if (4, 0, 0) \<le> (a, b, c) \<and> (a, b, c) < (5, 0, 0) then ''14.04''
           else if (5, 0, 0) \<le> (a, b, c) \<and> (a, b, c) \<le> (6, 0, 0) then ''16.04''
           else if (6, 0, 1) \<le> (a, b, c) \<and> (a, b, c) \<le> (6, 6, 1) then ''18.04''
           else if (6, 6, 2) \<le> (a, b, c) \<and> (a, b, c) \<le> (7, 1, 6) then ''20.04''
           else if (7, 2, 0) \<le> (a, b, c) \<and> (a, b, c) \<le> (7, 2, 5) then ''22.04''
           else if (7, 6, 0) \<le> (a, b, c) \<and> (a, b, c) \<le> (7, 6, 1) then ''22.04''
           else ''24.04'')
         \<and> length (filter (inRange v1) serverRanges) \<le> 1
         \<and> (filter (inRange v1) serverRanges = [] \<longleftrightarrow>
               (a, b, c) < (4, 0, 0)
               \<or> ((7, 1, 6) < (a, b, c) \<and> (a, b, c) < (7, 2, 0))
               \<or> ((7, 2, 5) < (a, b, c) \<and> (a, b, c) < (7, 6, 0))
               \<or> (7, 6, 1) < (a, b, c))
         \<and> (if filter (inRange v1) serverRanges = [] then ubuntuVersion variant = Inr ''24.04''
             else ubuntuVersion variant \<noteq> Inr ''24.04'')"
proof -
  note r = inRange_triple [OF assms(3,4)]
  have tag: "ubuntuVersion variant = Inr (
           if (4, 0, 0) \<le> (a, b, c) \<and> (a, b, c) < (5, 0, 0) then ''14.04''
           else if (5, 0, 0) \<le> (a, b, c) \<and> (a, b, c) \<le> (6, 0, 0) then ''16.04''
           else if (6, 0, 1) \<le> (a, b, c) \<and> (a, b, c) \<le> (6, 6, 1) then ''18.04''
           else if (6, 6, 2) \<le> (a, b, c) \<and> (a, b, c) \<le> (7, 1, 6) then ''20.04''
           else if (7, 2, 0) \<le> (a, b, c) \<and> (a, b, c) \<le> (7, 2, 5) then ''22.04''
           else if (7, 6, 0) \<le> (a, b, c) \<and> (a, b, c) \<le> (7, 6, 1) then ''22.04''
           else ''24.04'')"
    unfolding ubuntuVersion_server [OF assms(1,2)] r ..
  have one: "length (filter (inRange v1) serverRanges) \<le> 1"
    by (rule ranges_at_most_one [OF assms(3,4)])
  note none = ranges_none_iff [OF assms(3,4)]
  have last: "if filter (inRange v1) serverRanges = [] then ubuntuVersion variant = Inr ''24.04''
             else ubuntuVersion variant \<noteq> Inr ''24.04''"
    unfolding ubuntuVersion_server [OF assms(1,2)]
    by (simp add: serverRanges_def)
  show ?thesis
    using tag one none last by blast
qed

lemma server_variant_eval:
  "generateOneDockerfile EditionEnterprise ProductServer ''7.1.6'' [] Map.empty =
     Inr \<lparr> Edition = EditionEnterprise, Product = ProductServer, Version = ''7.1.6'',
           TargetVersion = ''7.1.6'', TemplateFilename = ''Dockerfile.template'',
           Arches = [Archamd64, Archarm64], IsStaging = False, OutputDir = [],
           TemplateOverrides = Map.empty \<rparr>"
  "generateOneDockerfile EditionEnterprise ProductServer ''7.2.0'' [] Map.empty =
     Inr \<lparr> Edition = EditionEnterprise, Product = ProductServer, Version = ''7.2.0'',
           TargetVersion = ''7.2.0'', TemplateFilename = ''Dockerfile.template'',
           Arches = [Archamd64, Archarm64], IsStaging = False, OutputDir = [],
           TemplateOverrides = Map.empty \<rparr>"
  "generateOneDockerfile EditionEnterprise ProductServer ''7.1.7'' [] Map.empty =
     Inr \<lparr> Edition = EditionEnterprise, Product = ProductServer, Version = ''7.1.7'',
           TargetVersion = ''7.1.7'', TemplateFilename = ''Dockerfile.template'',
           Arches = [Archamd64, Archarm64], IsStaging = False, OutputDir = [],
           TemplateOverrides = Map.empty \<rparr>"
  by (simp_all add: generateOneDockerfile_def eval_defs)

theorem server_os_version_ranges_witness:
  "NewVersion ''7.1.6'' = Some \<lparr>segments = [7, 1, 6], pre = []\<rparr>
   \<and> bindE (generateOneDockerfile EditionEnterprise ProductServer ''7.1.6'' [] Map.empty)
        ubuntuVersion = Inr ''20.04''
   \<and> filter (inRange \<lparr>segments = [7, 1, 6], pre = []\<rparr>) serverRanges
        = [version6Dot6Dot2To7Dot1Dot6]
   \<and> NewVersion ''7.2.0'' = Some \<lparr>segments = [7, 2, 0], pre = []\<rparr>
   \<and> bindE (generateOneDockerfile EditionEnterprise ProductServer ''7.2.0'' [] Map.empty)
        ubuntuVersion = Inr ''22.04''
   \<and> filter (inRange \<lparr>segments = [7, 2, 0], pre = []\<rparr>) serverRanges
        = [version7Dot2Dot0To7Dot2Dot5]"
proof -
  let ?a = "\<lparr> Edition = EditionEnterprise, Product = ProductServer, Version = ''7.1.6'',
           TargetVersion = ''7.1.6'', TemplateFilename = ''Dockerfile.template'',
           Arches = [Archamd64, Archarm64], IsStaging = False, OutputDir = [],
           TemplateOverrides = Map.empty \<rparr>"
  let ?b = "\<lparr> Edition = EditionEnterprise, Product = ProductServer, Version = ''7.2.0'',
           TargetVersion = ''7.2.0'', TemplateFilename = ''Dockerfile.template'',
           Arches = [Archamd64, Archarm64], IsStaging = False, OutputDir = [],
           TemplateOverrides = Map.empty \<rparr>"
  let ?va = "\<lparr>segments = [7, 1, 6], pre = []\<rparr>"
  let ?vb = "\<lparr>segments = [7, 2, 0], pre = []\<rparr>"
  have pa: "Product ?a = ProductServer" and pb: "Product ?b = ProductServer" by simp_all
  have na: "NewVersion ''7.1.6'' = Some ?va" and nb: "NewVersion ''7.2.0'' = Some ?vb"
    by (simp_all add: version_defs)
  then have na': "NewVersion (Version ?a) = Some ?va" and nb': "NewVersion (Version ?b) = Some ?vb"
    by simp_all
  have sa: "segments ?va = [7, 1, 6]" and ea: "pre ?va = []"
    and sb: "segments ?vb = [7, 2, 0]" and eb: "pre ?vb = []" by simp_all
  have fa: "filter (inRange ?va) serverRanges = [version6Dot6Dot2To7Dot1Dot6]"
    by (simp add: serverRanges_def inRange_triple [OF sa ea])
  have fb: "filter (inRange ?vb) serverRanges = [version7Dot2Dot0To7Dot2Dot5]"
    by (simp add: serverRanges_def inRange_triple [OF sb eb])
  from server_os_version_ranges [OF pa na' sa ea]
  have ua: "ubuntuVersion ?a = Inr ''20.04''" by simp
  from server_os_version_ranges [OF pb nb' sb eb]
  have ub: "ubuntuVersion ?b = Inr ''22.04''" by simp
  show ?thesis
    using na nb fa fb ua ub by (simp add: server_variant_eval bindE_simps)
qed

text \<open>
  Version 7.1.7 is at least 4.0 and older than 7.6.1, lies in none of the six ranges, and
  gets 24.04: the ranges have a gap between 7.1.6 and 7.2.0.
\<close>

theorem server_7_1_7_in_no_range:
  "NewVersion ''7.1.7'' = Some \<lparr>segments = [7, 1, 7], pre = []\<rparr>
   \<and> bindE (generateOneDockerfile EditionEnterprise ProductServer ''7.1.7'' [] Map.empty)
        ubuntuVersion = Inr ''24.04''
   \<and> filter (inRange \<lparr>segments = [7, 1, 7], pre = []\<rparr>) serverRanges = []
   \<and> (4 :: int, 0 :: int, 0 :: int) \<le> (7, 1, 7)
   \<and> (7 :: int, 1 :: int, 7 :: int) < (7, 6, 1)"
proof -
  let ?v1 = "\<lparr>segments = [7, 1, 7], pre = []\<rparr>"
  have n: "NewVersion ''7.1.7'' = Some ?v1" by (simp add: version_defs)
  have s: "segments ?v1 = [7, 1, 7]" and e: "pre ?v1 = []" by simp_all
  have f: "filter (inRange ?v1) serverRanges = []"
    by (simp add: serverRanges_def inRange_triple [OF s e])
  have u: "ubuntuVersion \<lparr> Edition = EditionEnterprise, Product = ProductServer, Version = ''7.1.7'',
           TargetVersion = ''7.1.7'', TemplateFilename = ''Dockerfile.template'',
           Arches = [Archamd64, Archarm64], IsStaging = False, OutputDir = [],
           TemplateOverrides = Map.empty \<rparr> = Inr ''24.04''"
    by (simp add: ubuntuVersion_server [where ?v1.0 = ?v1] n inRange_triple [OF s e])
  show ?thesis
    using n f u by (simp add: server_variant_eval bindE_simps)
qed

subsection \<open>The skip filter of the batch mode\<close>

lemma conc_cons_iff:
  "a # s \<in> conc A B \<longleftrightarrow>
     ([] \<in> A \<and> a # s \<in> B) \<or> (\<exists>u v. s = u @ v \<and> a # u \<in> A \<and> v \<in> B)"
proof
  assume "a # s \<in> conc A B"
  then obtain u v where uv: "a # s = u @ v" "u \<in> A" "v \<in> B"
    by (auto simp: conc_def)
  show "([] \<in> A \<and> a # s \<in> B) \<or> (\<exists>u v. s = u @ v \<and> a # u \<in> A \<and> v \<in> B)"
  proof (cases u)
    case Nil
    with uv show ?thesis by simp
  next
    case (Cons b u')
    with uv have "s = u' @ v" "a # u' \<in> A" by simp_all
    with uv(3) show ?thesis by blast
  qed
next
  assume "([] \<in> A \<and> a # s \<in> B) \<or> (\<exists>u v. s = u @ v \<and> a # u \<in> A \<and> v \<in> B)"
  then show "a # s \<in> conc A B"
  proof
    assume "[] \<in> A \<and> a # s \<in> B"
    then have "[] @ (a # s) \<in> conc A B" unfolding conc_def by blast
    then show ?thesis by simp
  next
    assume "\<exists>u v. s = u @ v \<and> a # u \<in> A \<and> v \<in> B"
    then obtain u v where "s = u @ v" "a # u \<in> A" "v \<in> B" by blast
    then have "(a # u) @ v \<in> conc A B" unfolding conc_def by blast
    with \<open>s = u @ v\<close> show ?thesis by simp
  qed
qed

lemma star_cons_split:
  assumes "w \<in> star A" and "w = a # s"
  shows "\<exists>u v. s = u @ v \<and> a # u \<in> A \<and> v \<in> star A"
  using assms
proof (induction rule: star.induct)
  case star_empty
  then show ?case by simp
next
  case (star_more u v)
  show ?case
  proof (cases u)
    case Nil
    with star_more show ?thesis by simp
  next
    case (Cons b u')
    with star_more.prems have "s = u' @ v" "b = a" by simp_all
    with Cons star_more.hyps show ?thesis by blast
  qed
qed

lemma star_cons_iff:
  "a # s \<in> star A \<longleftrightarrow> (\<exists>u v. s = u @ v \<and> a # u \<in> A \<and> v \<in> star A)"
proof
  assume "a # s \<in> star A"
  then show "\<exists>u v. s = u @ v \<and> a # u \<in> A \<and> v \<in> star A"
    by (rule star_cons_split) simp
next
  assume "\<exists>u v. s = u @ v \<and> a # u \<in> A \<and> v \<in> star A"
  then obtain u v where "s = u @ v" "a # u \<in> A" "v \<in> star A" by blast
  then have "(a # u) @ v \<in> star A" by (intro star_more)
  with \<open>s = u @ v\<close> show "a # s \<in> star A" by simp
qed

lemma nullable_iff: "nullable r \<longleftrightarrow> [] \<in> lang r"
  by (induction r) (auto simp: conc_def intro: star_empty)

lemma deriv_iff: "s \<in> lang (deriv a r) \<longleftrightarrow> a # s \<in> lang r"
proof (induction r arbitrary: s)
  case (Cat r1 r2)
  then show ?case
    by (auto simp: conc_cons_iff nullable_iff) (auto simp: conc_def)
next
  case (Star r)
  then show ?case
    by (auto simp: star_cons_iff) (auto simp: conc_def)
next
  case (Plus r)
  have "[] \<in> lang r \<Longrightarrow> a # s \<in> star (lang r) \<Longrightarrow>
          \<exists>u v. s = u @ v \<and> a # u \<in> lang r \<and> v \<in> star (lang r)"
    by (simp add: star_cons_iff)
  with Plus show ?case
    by (auto simp: conc_cons_iff) (auto simp: conc_def)
qed (auto simp: conc_def)

lemma derivs_iff: "t \<in> lang (foldl (\<lambda>r a. deriv a r) r s) \<longleftrightarrow> s @ t \<in> lang r"
  by (induction s arbitrary: r) (simp_all add: deriv_iff)

lemma MatchString_iff: "MatchString r s \<longleftrightarrow> s \<in> lang r"
  using derivs_iff [of "[]" r s] by (simp add: MatchString_def nullable_iff)


lemma star_NotChr: "star {[a] | a. a \<noteq> c} = {w. c \<notin> set w}"
proof (rule set_eqI, rule iffI)
  fix w
  assume "w \<in> star {[a] | a. a \<noteq> c}"
  then show "w \<in> {w. c \<notin> set w}"
    by (induction rule: star.induct) auto
next
  fix w
  assume "w \<in> {w. c \<notin> set w}"
  then have "c \<notin> set w" by simp
  then show "w \<in> star {[a] | a. a \<noteq> c}"
  proof (induction w)
    case Nil
    show ?case by (rule star_empty)
  next
    case (Cons b w)
    then have "[b] \<in> {[a] | a. a \<noteq> c}" and "w \<in> star {[a] | a. a \<noteq> c}" by auto
    then have "[b] @ w \<in> star {[a] | a. a \<noteq> c}" by (rule star_more)
    then show ?case by simp
  qed
qed

lemma lang_Plus_NotChr: "lang (Plus (NotChr c)) = {w. w \<noteq> [] \<and> c \<notin> set w}"
proof (rule set_eqI, rule iffI)
  fix w
  assume "w \<in> lang (Plus (NotChr c))"
  then show "w \<in> {w. w \<noteq> [] \<and> c \<notin> set w}"
    by (auto simp: conc_def star_NotChr)
next
  fix w
  assume "w \<in> {w. w \<noteq> [] \<and> c \<notin> set w}"
  then obtain b w' where w: "w = b # w'" "b \<noteq> c" "c \<notin> set w'"
    by (cases w) auto
  then have "[b] @ w' \<in> conc {[a] | a. a \<noteq> c} {w. c \<notin> set w}"
    unfolding conc_def by blast
  with w show "w \<in> lang (Plus (NotChr c))"
    by (simp add: star_NotChr)
qed

lemma lang_skipSyncGw:
  "ver \<in> lang skipSyncGw \<longleftrightarrow>
     (\<exists>rest. rest \<noteq> [] \<and> CHR 0x0A \<notin> set rest \<and> (ver = ''1.'' @ rest \<or> ver = ''2.0.'' @ rest))"
proof -
  have "lang skipSyncGw = conc {''1.'', ''2.0.''} {w. w \<noteq> [] \<and> CHR 0x0A \<notin> set w}"
    unfolding skipSyncGw_def lang.simps(6) lang_Plus_NotChr
    by (auto simp: conc_def)
  then have m: "ver \<in> lang skipSyncGw \<longleftrightarrow>
      (\<exists>u v. ver = u @ v \<and> (u = ''1.'' \<or> u = ''2.0.'') \<and> v \<noteq> [] \<and> CHR 0x0A \<notin> set v)"
    by (auto simp: conc_def)
  show ?thesis
    unfolding m by blast
qed

lemma Matches_skipGeneration_SyncGw:
  "Matches skipGeneration ProductSyncGw ver \<longleftrightarrow>
     (\<exists>rest. rest \<noteq> [] \<and> CHR 0x0A \<notin> set rest \<and> (ver = ''1.'' @ rest \<or> ver = ''2.0.'' @ rest))"
  by (simp add: Matches_def skipGeneration_def MatchString_iff lang_skipSyncGw)

lemma set_generateAllDockerfiles:
  "set (generateAllDockerfiles dirs) =
     {(edition, product, ver, action).
        edition \<in> set default_editions \<and> product \<in> set default_products
        \<and> ver \<in> set (versionSubdirectories (dirs edition product))
        \<and> action = (if Matches skipGeneration product ver then Skipped else Generated)}"
  by (auto simp: generateAllDockerfiles_def)

text \<open>
  C3. In batch mode, a sync-gateway version directory that is found is skipped
  if and only if its name is \<^verbatim>\<open>1.\<close> or \<^verbatim>\<open>2.0.\<close> followed by at least one more byte, none
  of them a newline: all of 1.x and 2.0.x, with 2.0.1 and the later 2.0.x among them.
  Every other sync-gateway directory found is generated.
\<close>

theorem sync_gateway_skipped_iff_1_x_or_2_0_x:
  assumes "edition \<in> set default_editions"
      and "ver \<in> set (versionSubdirectories (dirs edition ProductSyncGw))"
  shows "((edition, ProductSyncGw, ver, Skipped) \<in> set (generateAllDockerfiles dirs) \<longleftrightarrow>
            (\<exists>rest. rest \<noteq> [] \<and> CHR 0x0A \<notin> set rest
                    \<and> (ver = ''1.'' @ rest \<or> ver = ''2.0.'' @ rest)))
       \<and> ((edition, ProductSyncGw, ver, Generated) \<in> set (generateAllDockerfiles dirs) \<longleftrightarrow>
            (edition, ProductSyncGw, ver, Skipped) \<notin> set (generateAllDockerfiles dirs))"
proof -
  have p: "ProductSyncGw \<in> set default_products"
    by (simp add: default_products_def)
  show ?thesis
    using assms p
    by (simp add: set_generateAllDockerfiles Matches_skipGeneration_SyncGw)
qed

lemmas regex_eval = Matches_def skipGeneration_def MatchString_def skipSyncGw_def
  versionSubdirectories_def versionDirGlobPattern_def

text \<open>
  Version 2.0.1 is not below 2.0.1, its directory name passes the glob, and the filter
  matches it: it is skipped.
\<close>

theorem sync_gateway_2_0_1_is_skipped:
  "intVer ''2.0.1'' = Inr (20001, None)
   \<and> versionSubdirectories [''2.0.1''] = [''2.0.1'']
   \<and> Matches skipGeneration ProductSyncGw ''2.0.1''"
  by (simp add: eval_defs regex_eval)

theorem sync_gateway_skipped_iff_1_x_or_2_0_x_witness:
  "EditionCommunity \<in> set default_editions
   \<and> ''2.0.1'' \<in> set (versionSubdirectories [''2.0.1'', ''2.1.0''])
   \<and> ''2.1.0'' \<in> set (versionSubdirectories [''2.0.1'', ''2.1.0''])
   \<and> (EditionCommunity, ProductSyncGw, ''2.0.1'', Skipped)
        \<in> set (generateAllDockerfiles (\<lambda>edition product. [''2.0.1'', ''2.1.0'']))
   \<and> (EditionCommunity, ProductSyncGw, ''2.1.0'', Generated)
        \<in> set (generateAllDockerfiles (\<lambda>edition product. [''2.0.1'', ''2.1.0'']))"
proof -
  have e: "EditionCommunity \<in> set default_editions"
    by (simp add: default_editions_def)
  have v: "versionSubdirectories [''2.0.1'', ''2.1.0''] = [''2.0.1'', ''2.1.0'']"
    by (simp add: regex_eval)
  have v1: "''2.0.1'' \<in> set (versionSubdirectories ((\<lambda>edition product. [''2.0.1'', ''2.1.0'']) EditionCommunity ProductSyncGw))"
    and v2: "''2.1.0'' \<in> set (versionSubdirectories ((\<lambda>edition product. [''2.0.1'', ''2.1.0'']) EditionCommunity ProductSyncGw))"
    by (simp_all add: v)
  have a: "\<exists>rest. rest \<noteq> [] \<and> CHR 0x0A \<notin> set rest \<and> (''2.0.1'' = ''1.'' @ rest \<or> ''2.0.1'' = ''2.0.'' @ rest)"
    by (rule exI [of _ "''1''"]) simp
  have b: "\<not> (\<exists>rest. rest \<noteq> [] \<and> CHR 0x0A \<notin> set rest \<and> (''2.1.0'' = ''1.'' @ rest \<or> ''2.1.0'' = ''2.0.'' @ rest))"
    by simp
  show ?thesis
    using e v a b
      sync_gateway_skipped_iff_1_x_or_2_0_x [OF e v1]
      sync_gateway_skipped_iff_1_x_or_2_0_x [OF e v2]
    by simp
qed

subsection \<open>The number that \<^verbatim>\<open>intVer\<close> packs\<close>

lemma ParseInt_syntax_zero: "ParseInt s = (n, Some ErrSyntax) \<Longrightarrow> n = 0"
  by (auto simp: ParseInt_def Let_def split: if_splits prod.splits)

lemma intVer_syntax_zero: "intVer v = Inr (n, Some ErrSyntax) \<Longrightarrow> n = 0"
  by (auto simp: intVer_def Let_def ParseInt_syntax_zero split: list.splits if_splits)






lemma foldl_decimal_append:
  "foldl (\<lambda>n c. n * 10 + digitVal c) n (s @ t)
     = foldl (\<lambda>n c. n * 10 + digitVal c) (foldl (\<lambda>n c. n * 10 + digitVal c) n s) t"
  by simp






lemma length_pad02_long: "2 \<le> length s \<Longrightarrow> pad02 s = s"
  by (simp add: pad02_def)




subsection \<open>Package files of sync-gateway\<close>

lemma HasSuffix_append: "HasSuffix (xs @ suf) suf"
  by (simp add: HasSuffix_def)



lemma sgw_variant_eval:
  "generateOneDockerfile EditionEnterprise ProductSyncGw ''3.0.3'' [] Map.empty =
     Inr \<lparr> Edition = EditionEnterprise, Product = ProductSyncGw, Version = ''3.0.3'',
           TargetVersion = ''3.0.3'', TemplateFilename = ''Dockerfile.centos.template'',
           Arches = [Archamd64], IsStaging = False, OutputDir = [],
           TemplateOverrides = Map.empty \<rparr>"
  "generateOneDockerfile EditionEnterprise ProductSyncGw ''3.0.4'' [] Map.empty =
     Inr \<lparr> Edition = EditionEnterprise, Product = ProductSyncGw, Version = ''3.0.4'',
           TargetVersion = ''3.0.4'', TemplateFilename = ''Dockerfile.ubuntu.template'',
           Arches = [Archamd64, Archarm64], IsStaging = False, OutputDir = [],
           TemplateOverrides = Map.empty \<rparr>"
  "generateOneDockerfile EditionEnterprise ProductSyncGw ''3.1.0x'' [] Map.empty =
     Inr \<lparr> Edition = EditionEnterprise, Product = ProductSyncGw, Version = ''3.1.0x'',
           TargetVersion = ''3.1.0x'', TemplateFilename = ''Dockerfile.centos.template'',
           Arches = [Archamd64], IsStaging = False, OutputDir = [],
           TemplateOverrides = Map.empty \<rparr>"
  "generateOneDockerfile EditionEnterprise ProductSyncGw ''2.100.0'' [] Map.empty =
     Inr \<lparr> Edition = EditionEnterprise, Product = ProductSyncGw, Version = ''2.100.0'',
           TargetVersion = ''2.100.0'', TemplateFilename = ''Dockerfile.ubuntu.template'',
           Arches = [Archamd64, Archarm64], IsStaging = False, OutputDir = [],
           TemplateOverrides = Map.empty \<rparr>"
  by (simp_all add: generateOneDockerfile_def eval_defs product_defs)

lemmas custom_defs = versionCustomization_def versionCustomizationKey_def
  versionCustomizations_def EditionEnterprise_def EditionCommunity_def



subsection \<open>The customization table\<close>

text \<open>
  C7. When the key \<^verbatim>\<open>product_edition_version\<close> of a variant is in the customization
  table, the package URL and the package file name of sync-gateway are the stored strings,
  and nothing is computed from a pattern.
\<close>

theorem customization_overrides_verbatim:
  assumes "versionCustomizations
             (Product variant @ ''_'' @ Edition variant @ ''_'' @ Version variant) = Some custom"
  shows "sgPackageUrl variant = Inr (PackageUrl custom)
       \<and> sgPackageFilename variant = Inr (PackageFilename custom)"
  using assms
  by (simp add: sgPackageUrl_def sgPackageFilename_def versionCustomization_def
      versionCustomizationKey_def)

theorem customization_overrides_verbatim_witness:
  "bindE (generateOneDockerfile EditionCommunity ProductSyncGw ''2.0.0-devbuild'' [] Map.empty)
     sgPackageUrl =
     Inr ''http://cbmobile-packages.s3.amazonaws.com/couchbase-sync-gateway-community_2.0.0-827_x86_64.rpm''
   \<and> bindE (generateOneDockerfile EditionCommunity ProductSyncGw ''2.0.0-devbuild'' [] Map.empty)
     sgPackageFilename = Inr ''couchbase-sync-gateway-community_2.0.0-827_x86_64.rpm''"
proof -
  let ?v = "\<lparr> Edition = EditionCommunity, Product = ProductSyncGw, Version = ''2.0.0-devbuild'',
           TargetVersion = ''2.0.0-devbuild'', TemplateFilename = ''Dockerfile.centos.template'',
           Arches = [Archamd64], IsStaging = False, OutputDir = [],
           TemplateOverrides = Map.empty \<rparr>"
  let ?c = "\<lparr> PackageUrl = ''http://cbmobile-packages.s3.amazonaws.com/couchbase-sync-gateway-community_2.0.0-827_x86_64.rpm'',
            PackageFilename = ''couchbase-sync-gateway-community_2.0.0-827_x86_64.rpm'' \<rparr>"
  have g: "generateOneDockerfile EditionCommunity ProductSyncGw ''2.0.0-devbuild'' [] Map.empty
             = Inr ?v"
    by (simp add: generateOneDockerfile_def eval_defs product_defs)
  have k: "versionCustomizations (Product ?v @ ''_'' @ Edition ?v @ ''_'' @ Version ?v) = Some ?c"
    by (simp add: custom_defs product_defs)
  show ?thesis
    using customization_overrides_verbatim [OF k]
    by (simp add: g bindE_def)
qed

subsection \<open>The checksum fetch\<close>

lemma fieldsOfRunes_first:
  "dropWhile (\<lambda>x. IsSpace (fst x)) rs \<noteq> [] \<Longrightarrow>
     \<exists>rest. fieldsOfRunes rs =
       concat (map snd (takeWhile (\<lambda>x. \<not> IsSpace (fst x))
                 (dropWhile (\<lambda>x. IsSpace (fst x)) rs))) # rest"
proof (induction rs)
  case Nil
  then show ?case by simp
next
  case (Cons x xs)
  show ?case
  proof (cases "IsSpace (fst x)")
    case True
    with Cons show ?thesis by simp
  next
    case False
    show ?thesis
    proof (cases xs)
      case Nil
      with False show ?thesis by simp
    next
      case (Cons y ys)
      show ?thesis
      proof (cases "IsSpace (fst y)")
        case True
        with False Cons show ?thesis by simp
      next
        case notsp: False
        with Cons have "dropWhile (\<lambda>x. IsSpace (fst x)) xs \<noteq> []" by simp
        from Cons.IH [OF this] obtain rest where
          "fieldsOfRunes xs =
             concat (map snd (takeWhile (\<lambda>x. \<not> IsSpace (fst x))
                       (dropWhile (\<lambda>x. IsSpace (fst x)) xs))) # rest" ..
        with False notsp Cons show ?thesis by simp
      qed
    qed
  qed
qed

lemma fieldsOfRunes_blank:
  "dropWhile (\<lambda>x. IsSpace (fst x)) rs = [] \<Longrightarrow> fieldsOfRunes rs = []"
  by (induction rs) (auto split: if_splits)

text \<open>
  C8. Once the checksum URL is built: when the GET fails or answers with a status other
  than 200, \<^verbatim>\<open>getSHA256\<close> returns the sentinel \<^verbatim>\<open>MISSING_SHA256_ERROR\<close>; when the answer
  is 200 and its body cannot be read, it returns a second sentinel, \<^verbatim>\<open>HTTP_ERROR\<close>; both
  are values, not errors. When the answer is 200 and its body has a rune that is not
  white space, it returns the first token of the body: the bytes of the runes from the
  first one that is not white space up to the next white space.
\<close>

theorem getSHA256_sentinels_and_first_token:
  assumes "sha256url variant arch = Inr url"
  shows "(http_Get net url = GetError \<longrightarrow>
            getSHA256 net variant arch = Inr ''MISSING_SHA256_ERROR'')
       \<and> (\<forall>status body. http_Get net url = Response status body \<and> status \<noteq> 200 \<longrightarrow>
            getSHA256 net variant arch = Inr ''MISSING_SHA256_ERROR'')
       \<and> (http_Get net url = Response 200 ReadError \<longrightarrow>
            getSHA256 net variant arch = Inr ''HTTP_ERROR'')
       \<and> (\<forall>b. http_Get net url = Response 200 (Body b)
                \<and> dropWhile (\<lambda>x. IsSpace (fst x)) (runes b) \<noteq> [] \<longrightarrow>
            getSHA256 net variant arch
              = Inr (concat (map snd (takeWhile (\<lambda>x. \<not> IsSpace (fst x))
                                       (dropWhile (\<lambda>x. IsSpace (fst x)) (runes b))))))"
proof (intro conjI allI impI)
  assume "http_Get net url = GetError"
  with assms show "getSHA256 net variant arch = Inr ''MISSING_SHA256_ERROR''"
    by (simp add: getSHA256_def bindE_simps)
next
  fix status body
  assume "http_Get net url = Response status body \<and> status \<noteq> 200"
  with assms show "getSHA256 net variant arch = Inr ''MISSING_SHA256_ERROR''"
    by (simp add: getSHA256_def bindE_simps)
next
  assume "http_Get net url = Response 200 ReadError"
  with assms show "getSHA256 net variant arch = Inr ''HTTP_ERROR''"
    by (simp add: getSHA256_def bindE_simps)
next
  fix b
  assume a: "http_Get net url = Response 200 (Body b)
               \<and> dropWhile (\<lambda>x. IsSpace (fst x)) (runes b) \<noteq> []"
  then obtain rest where
    "Fields b = concat (map snd (takeWhile (\<lambda>x. \<not> IsSpace (fst x))
                          (dropWhile (\<lambda>x. IsSpace (fst x)) (runes b)))) # rest"
    unfolding Fields_def using fieldsOfRunes_first by blast
  with assms a show "getSHA256 net variant arch
      = Inr (concat (map snd (takeWhile (\<lambda>x. \<not> IsSpace (fst x))
                                (dropWhile (\<lambda>x. IsSpace (fst x)) (runes b)))))"
    by (simp add: getSHA256_def bindE_simps)
qed

text \<open>A body without any token makes the index \<^verbatim>\<open>[0]\<close> panic.\<close>

lemma getSHA256_blank_body:
  assumes "sha256url variant arch = Inr url"
      and "http_Get net url = Response 200 (Body b)"
      and "dropWhile (\<lambda>x. IsSpace (fst x)) (runes b) = []"
  shows "getSHA256 net variant arch = Inl RuntimePanic"
  using assms by (simp add: getSHA256_def bindE_simps Fields_def fieldsOfRunes_blank)

lemma server_7_1_0_sha256url:
  "sha256url \<lparr> Edition = EditionEnterprise, Product = ProductServer, Version = ''7.1.0'',
           TargetVersion = ''7.1.0'', TemplateFilename = ''Dockerfile.template'',
           Arches = [Archamd64, Archarm64], IsStaging = False, OutputDir = [],
           TemplateOverrides = Map.empty \<rparr> Archamd64 =
     Inr ''https://packages.couchbase.com/releases/7.1.0/couchbase-server-enterprise_7.1.0-linux_amd64.deb.sha256''"
  by (simp add: sha256url_def serverPackageFile_def releaseURL_def eval_defs product_defs
      EditionEnterprise_def Archamd64_def)

lemma server_7_1_0_variant:
  "generateOneDockerfile EditionEnterprise ProductServer ''7.1.0'' [] Map.empty =
     Inr \<lparr> Edition = EditionEnterprise, Product = ProductServer, Version = ''7.1.0'',
           TargetVersion = ''7.1.0'', TemplateFilename = ''Dockerfile.template'',
           Arches = [Archamd64, Archarm64], IsStaging = False, OutputDir = [],
           TemplateOverrides = Map.empty \<rparr>"
  by (simp add: generateOneDockerfile_def eval_defs)

lemmas fields_eval = decodeRune_def IsSpace_def

text \<open>
  In the witness the second body starts with U+00A0 and has U+3000 after the checksum.
\<close>

theorem getSHA256_sentinels_and_first_token_witness:
  "bindE (generateOneDockerfile EditionEnterprise ProductServer ''7.1.0'' [] Map.empty)
     (\<lambda>variant. getSHA256 (\<lambda>url. GetError) variant Archamd64) = Inr ''MISSING_SHA256_ERROR''
   \<and> bindE (generateOneDockerfile EditionEnterprise ProductServer ''7.1.0'' [] Map.empty)
     (\<lambda>variant. getSHA256 (\<lambda>url. Response 404 (Body ''Not Found'')) variant Archamd64)
       = Inr ''MISSING_SHA256_ERROR''
   \<and> bindE (generateOneDockerfile EditionEnterprise ProductServer ''7.1.0'' [] Map.empty)
     (\<lambda>variant. getSHA256 (\<lambda>url. Response 200 ReadError) variant Archamd64)
       = Inr ''HTTP_ERROR''
   \<and> bindE (generateOneDockerfile EditionEnterprise ProductServer ''7.1.0'' [] Map.empty)
     (\<lambda>variant. getSHA256 (\<lambda>url. Response 200 (Body ''0123abcd  server.deb'')) variant Archamd64)
       = Inr ''0123abcd''
   \<and> bindE (generateOneDockerfile EditionEnterprise ProductServer ''7.1.0'' [] Map.empty)
     (\<lambda>variant. getSHA256
        (\<lambda>url. Response 200
           (Body ([CHR 0xC2, CHR 0xA0] @ ''0123abcd'' @ [CHR 0xE3, CHR 0x80, CHR 0x80] @ ''x'')))
        variant Archamd64)
       = Inr ''0123abcd''"
proof -
  let ?v = "\<lparr> Edition = EditionEnterprise, Product = ProductServer, Version = ''7.1.0'',
           TargetVersion = ''7.1.0'', TemplateFilename = ''Dockerfile.template'',
           Arches = [Archamd64, Archarm64], IsStaging = False, OutputDir = [],
           TemplateOverrides = Map.empty \<rparr>"
  let ?url = "''https://packages.couchbase.com/releases/7.1.0/couchbase-server-enterprise_7.1.0-linux_amd64.deb.sha256''"
  let ?b1 = "''0123abcd  server.deb''"
  let ?b2 = "[CHR 0xC2, CHR 0xA0] @ ''0123abcd'' @ [CHR 0xE3, CHR 0x80, CHR 0x80] @ ''x''"
  note g = server_7_1_0_variant
  note u = server_7_1_0_sha256url
  have n1: "http_Get (\<lambda>url. GetError) ?url = GetError"
    and n2: "http_Get (\<lambda>url. Response 404 (Body ''Not Found'')) ?url
               = Response 404 (Body ''Not Found'') \<and> (404 :: int) \<noteq> 200"
    and n3: "http_Get (\<lambda>url. Response 200 ReadError) ?url = Response 200 ReadError"
    by (simp_all add: http_Get_def)
  have t1: "concat (map snd (takeWhile (\<lambda>x. \<not> IsSpace (fst x))
              (dropWhile (\<lambda>x. IsSpace (fst x)) (runes ?b1)))) = ''0123abcd''"
    and t2: "concat (map snd (takeWhile (\<lambda>x. \<not> IsSpace (fst x))
              (dropWhile (\<lambda>x. IsSpace (fst x)) (runes ?b2)))) = ''0123abcd''"
    by (simp_all add: fields_eval)
  have n4: "http_Get (\<lambda>url. Response 200 (Body ?b1)) ?url = Response 200 (Body ?b1)
             \<and> dropWhile (\<lambda>x. IsSpace (fst x)) (runes ?b1) \<noteq> []"
    and n5: "http_Get (\<lambda>url. Response 200 (Body ?b2)) ?url = Response 200 (Body ?b2)
             \<and> dropWhile (\<lambda>x. IsSpace (fst x)) (runes ?b2) \<noteq> []"
    by (simp_all add: http_Get_def fields_eval)
  from getSHA256_sentinels_and_first_token [OF u, of "\<lambda>url. GetError"] n1
  have r1: "getSHA256 (\<lambda>url. GetError) ?v Archamd64 = Inr ''MISSING_SHA256_ERROR''" by blast
  from getSHA256_sentinels_and_first_token [OF u, of "\<lambda>url. Response 404 (Body ''Not Found'')"] n2
  have r2: "getSHA256 (\<lambda>url. Response 404 (Body ''Not Found'')) ?v Archamd64
              = Inr ''MISSING_SHA256_ERROR''" by blast
  from getSHA256_sentinels_and_first_token [OF u, of "\<lambda>url. Response 200 ReadError"] n3
  have r3: "getSHA256 (\<lambda>url. Response 200 ReadError) ?v Archamd64 = Inr ''HTTP_ERROR''"
    by blast
  from getSHA256_sentinels_and_first_token [OF u, of "\<lambda>url. Response 200 (Body ?b1)"] n4
  have r4: "getSHA256 (\<lambda>url. Response 200 (Body ?b1)) ?v Archamd64
              = Inr (concat (map snd (takeWhile (\<lambda>x. \<not> IsSpace (fst x))
                       (dropWhile (\<lambda>x. IsSpace (fst x)) (runes ?b1)))))"
    by blast
  from getSHA256_sentinels_and_first_token [OF u, of "\<lambda>url. Response 200 (Body ?b2)"] n5
  have r5: "getSHA256 (\<lambda>url. Response 200 (Body ?b2)) ?v Archamd64
              = Inr (concat (map snd (takeWhile (\<lambda>x. \<not> IsSpace (fst x))
                       (dropWhile (\<lambda>x. IsSpace (fst x)) (runes ?b2)))))"
    by blast
  show ?thesis
    unfolding g bindE_simps r1 r2 r3 r4 r5 t1 t2 by simp
qed

text \<open>
  A failed GET and a body that cannot be read give two different sentinels, and a 200
  answer whose body is blank ends the run with a panic.
\<close>

theorem getSHA256_second_sentinel_and_panic:
  "bindE (generateOneDockerfile EditionEnterprise ProductServer ''7.1.0'' [] Map.empty)
     (\<lambda>variant. getSHA256 (\<lambda>url. GetError) variant Archamd64) = Inr ''MISSING_SHA256_ERROR''
   \<and> bindE (generateOneDockerfile EditionEnterprise ProductServer ''7.1.0'' [] Map.empty)
     (\<lambda>variant. getSHA256 (\<lambda>url. Response 200 ReadError) variant Archamd64)
       = Inr ''HTTP_ERROR''
   \<and> ''HTTP_ERROR'' \<noteq> ''MISSING_SHA256_ERROR''
   \<and> bindE (generateOneDockerfile EditionEnterprise ProductServer ''7.1.0'' [] Map.empty)
     (\<lambda>variant. getSHA256 (\<lambda>url. Response 200 (Body '' '')) variant Archamd64)
       = Inl RuntimePanic"
proof -
  let ?v = "\<lparr> Edition = EditionEnterprise, Product = ProductServer, Version = ''7.1.0'',
           TargetVersion = ''7.1.0'', TemplateFilename = ''Dockerfile.template'',
           Arches = [Archamd64, Archarm64], IsStaging = False, OutputDir = [],
           TemplateOverrides = Map.empty \<rparr>"
  have a: "getSHA256 (\<lambda>url. GetError) ?v Archamd64 = Inr ''MISSING_SHA256_ERROR''"
    and b: "getSHA256 (\<lambda>url. Response 200 ReadError) ?v Archamd64 = Inr ''HTTP_ERROR''"
    and c: "getSHA256 (\<lambda>url. Response 200 (Body '' '')) ?v Archamd64 = Inl RuntimePanic"
    by (simp_all add: getSHA256_def server_7_1_0_sha256url bindE_simps http_Get_def
        Fields_def fields_eval)
  show ?thesis
    unfolding server_7_1_0_variant bindE_simps a b c by simp
qed

text \<open>
  C10. For a variant of any product but couchbase-server the checksum URL is empty, the
  GET of the empty URL fails whatever the network answers, and \<^verbatim>\<open>getSHA256\<close> returns
  \<^verbatim>\<open>MISSING_SHA256_ERROR\<close> for every architecture.
\<close>

theorem getSHA256_other_products:
  assumes "Product variant \<noteq> ProductServer"
  shows "getSHA256 net variant arch = Inr ''MISSING_SHA256_ERROR''"
  using assms
  by (simp add: getSHA256_def sha256url_def ProductServer_def http_Get_def bindE_def)

theorem getSHA256_other_products_witness:
  "ProductSyncGw \<noteq> ProductServer
   \<and> bindE (generateOneDockerfile EditionEnterprise ProductSyncGw ''3.0.4'' [] Map.empty)
       (\<lambda>variant. getSHA256 (\<lambda>url. Response 200 (Body ''0123abcd  file.deb'')) variant Archarm64)
       = Inr ''MISSING_SHA256_ERROR''"
proof -
  let ?v4 = "\<lparr> Edition = EditionEnterprise, Product = ProductSyncGw, Version = ''3.0.4'',
           TargetVersion = ''3.0.4'', TemplateFilename = ''Dockerfile.ubuntu.template'',
           Arches = [Archamd64, Archarm64], IsStaging = False, OutputDir = [],
           TemplateOverrides = Map.empty \<rparr>"
  have p: "Product ?v4 \<noteq> ProductServer"
    by (simp add: product_defs)
  show ?thesis
    using p getSHA256_other_products [OF p, of "\<lambda>url. Response 200 (Body ''0123abcd  file.deb'')" Archarm64]
    by (simp add: sgw_variant_eval bindE_def)
qed

subsection \<open>The special case of couchbase-server 7.0.3\<close>






subsection \<open>Versions that fail numeric parsing\<close>

text \<open>
  C4. When the first three sections of a version fail numeric parsing with a
  syntax error, \<^verbatim>\<open>intVer\<close> returns 0 with the error, the callers drop the error, and every
  computation that uses the number goes on with 0: the variant is constructed without
  arm64 from a version threshold and with the centos template for sync-gateway, the
  package file name of sync-gateway ends in \<^verbatim>\<open>.rpm\<close>, the package file of the server follows
  the pattern of the versions before 7.1.0, and the base image of sync-gateway is
  \<^verbatim>\<open>centos:centos7\<close>. Nothing here aborts on the parse error.
\<close>

theorem malformed_version_proceeds_with_zero:
  assumes "intVer (TrimSuffix ver ''-staging'') = Inr (n, Some ErrSyntax)"
  shows "n = 0
       \<and> (\<exists>variant.
            generateOneDockerfile edition product ver outputDir overrides = Inr variant
            \<and> Version variant = TrimSuffix ver ''-staging''
            \<and> Arches variant =
                (if product = ProductColumnar \<or> product = ProductEnterpriseAnalytics
                 then [Archamd64, Archarm64] else [Archamd64])
            \<and> TemplateFilename variant =
                (if product = ProductSyncGw then ''Dockerfile.centos.template''
                 else ''Dockerfile.template'')
            \<and> (versionCustomization variant = None \<longrightarrow>
                sgPackageFilename variant =
                  Inr (''couchbase-sync-gateway-'' @ ToLower edition @ ''_''
                       @ Version variant @ ''_@@ARCH@@.rpm''))
            \<and> serverPackageFile variant arch =
                bindE (ubuntuVersion variant)
                  (\<lambda>u. Inr (product @ ''-'' @ edition @ ''_'' @ Version variant
                             @ ''-ubuntu'' @ u @ ''_amd64.deb''))
            \<and> (product = ProductSyncGw \<longrightarrow>
                dockerBaseImage variant =
                  Inr (if Contains (Version variant) ''forestdb'' then ''tleyden5iwx/forestdb''
                       else ''centos:centos7''))
            \<and> systemdWorkaround variant = Inr (product = ProductServer)
            \<and> isMadHatterOrNewer variant = Inr False)"
proof -
  define variant where "variant =
    \<lparr> Edition = edition, Product = product, Version = TrimSuffix ver ''-staging'',
      TargetVersion = TrimSuffix ver ''-staging'',
      TemplateFilename = (if product = ProductSyncGw then ''Dockerfile.centos.template''
                          else ''Dockerfile.template''),
      Arches = (if product = ProductColumnar \<or> product = ProductEnterpriseAnalytics
                then [Archamd64, Archarm64] else [Archamd64]),
      IsStaging = HasSuffix ver ''-staging'', OutputDir = outputDir,
      TemplateOverrides = overrides \<rparr>"
  have z: "n = 0" using assms by (rule intVer_syntax_zero)
  with assms have i: "intVer (Version variant) = Inr (0, Some ErrSyntax)"
    by (simp add: variant_def)
  have sel: "Version variant = TrimSuffix ver ''-staging''" "Product variant = product"
    "Edition variant = edition"
    "Arches variant = (if product = ProductColumnar \<or> product = ProductEnterpriseAnalytics
                       then [Archamd64, Archarm64] else [Archamd64])"
    "TemplateFilename variant = (if product = ProductSyncGw then ''Dockerfile.centos.template''
                                 else ''Dockerfile.template'')"
    by (simp_all add: variant_def)
  have g: "generateOneDockerfile edition product ver outputDir overrides = Inr variant"
    using i by (simp add: generateOneDockerfile_def variant_def bindE_simps product_defs Let_def)
  have f: "versionCustomization variant = None \<longrightarrow>
             sgPackageFilename variant =
               Inr (''couchbase-sync-gateway-'' @ ToLower edition @ ''_''
                    @ Version variant @ ''_@@ARCH@@.rpm'')"
    by (simp add: sgPackageFilename_def i bindE_simps sel(3))
  have s: "serverPackageFile variant arch =
             bindE (ubuntuVersion variant)
               (\<lambda>u. Inr (product @ ''-'' @ edition @ ''_'' @ Version variant
                          @ ''-ubuntu'' @ u @ ''_amd64.deb''))"
    by (simp add: serverPackageFile_def i bindE_simps sel(2,3))
  have d: "product = ProductSyncGw \<longrightarrow>
             dockerBaseImage variant =
               Inr (if Contains (Version variant) ''forestdb'' then ''tleyden5iwx/forestdb''
                    else ''centos:centos7'')"
    by (simp add: dockerBaseImage_def i bindE_simps sel(2))
  have w: "systemdWorkaround variant = Inr (product = ProductServer)"
    by (simp add: systemdWorkaround_def i bindE_simps sel(2))
  have m: "isMadHatterOrNewer variant = Inr False"
    by (simp add: isMadHatterOrNewer_def i bindE_simps)
  show ?thesis
    apply (rule conjI [OF z])
    apply (rule exI [of _ variant])
    apply (intro conjI)
            apply (fact g sel f s d w m)+
    done
qed


theorem malformed_version_proceeds_with_zero_witness:
  "intVer (TrimSuffix ''v7.1.0'' ''-staging'') = Inr (0, Some ErrSyntax)
   \<and> map_sum id Arches
        (generateOneDockerfile EditionEnterprise ProductServer ''v7.1.0'' [] Map.empty)
       = Inr [Archamd64]
   \<and> bindE (generateOneDockerfile EditionEnterprise ProductServer ''v7.1.0'' [] Map.empty)
        (\<lambda>variant. serverPackageFile variant Archamd64)
       = Inr ''couchbase-server-enterprise_v7.1.0-ubuntu20.04_amd64.deb''"
proof -
  let ?v = "\<lparr> Edition = EditionEnterprise, Product = ProductServer, Version = ''v7.1.0'',
           TargetVersion = ''v7.1.0'', TemplateFilename = ''Dockerfile.template'',
           Arches = [Archamd64], IsStaging = False, OutputDir = [],
           TemplateOverrides = Map.empty \<rparr>"
  let ?v1 = "\<lparr>segments = [7, 1, 0], pre = []\<rparr>"
  have i: "intVer (TrimSuffix ''v7.1.0'' ''-staging'') = Inr (0, Some ErrSyntax)"
    by (simp add: eval_defs)
  have g: "generateOneDockerfile EditionEnterprise ProductServer ''v7.1.0'' [] Map.empty = Inr ?v"
    by (simp add: generateOneDockerfile_def eval_defs)
  have n: "NewVersion ''v7.1.0'' = Some ?v1"
    by (simp add: version_defs)
  have s: "segments ?v1 = [7, 1, 0]" and e: "pre ?v1 = []" by simp_all
  have u: "ubuntuVersion ?v = Inr ''20.04''"
    by (simp add: ubuntuVersion_server [where ?v1.0 = ?v1] n inRange_triple [OF s e])
  from malformed_version_proceeds_with_zero
         [OF i, of EditionEnterprise ProductServer "[]" Map.empty Archamd64]
  have "Arches ?v = [Archamd64]"
    and "serverPackageFile ?v Archamd64 =
           bindE (ubuntuVersion ?v)
             (\<lambda>u. Inr (ProductServer @ ''-'' @ EditionEnterprise @ ''_'' @ Version ?v
                        @ ''-ubuntu'' @ u @ ''_amd64.deb''))"
    by (auto simp: g)
  then have a: "Arches ?v = [Archamd64]"
    and f: "serverPackageFile ?v Archamd64
              = Inr ''couchbase-server-enterprise_v7.1.0-ubuntu20.04_amd64.deb''"
    unfolding u bindE_simps by (simp_all add: ProductServer_def EditionEnterprise_def)
  show ?thesis
    using i a f by (simp add: g bindE_simps)
qed

text \<open>
  The sync-gateway version 3.1.0x does not parse. The error is dropped and the generation
  goes on with the number 0: the centos template, amd64 alone, the \<^verbatim>\<open>.rpm\<close> file name and
  the \<^verbatim>\<open>centos:centos7\<close> base image, none of them an abort.
\<close>

theorem sync_gateway_3_1_0x_is_generated:
  "intVer ''3.1.0x'' = Inr (0, Some ErrSyntax)
   \<and> map_sum id TemplateFilename
        (generateOneDockerfile EditionEnterprise ProductSyncGw ''3.1.0x'' [] Map.empty)
       = Inr ''Dockerfile.centos.template''
   \<and> map_sum id Arches
        (generateOneDockerfile EditionEnterprise ProductSyncGw ''3.1.0x'' [] Map.empty)
       = Inr [Archamd64]
   \<and> bindE (generateOneDockerfile EditionEnterprise ProductSyncGw ''3.1.0x'' [] Map.empty)
        sgPackageFilename = Inr ''couchbase-sync-gateway-enterprise_3.1.0x_@@ARCH@@.rpm''
   \<and> bindE (generateOneDockerfile EditionEnterprise ProductSyncGw ''3.1.0x'' [] Map.empty)
        dockerBaseImage = Inr ''centos:centos7''"
proof -
  let ?v = "\<lparr> Edition = EditionEnterprise, Product = ProductSyncGw, Version = ''3.1.0x'',
           TargetVersion = ''3.1.0x'', TemplateFilename = ''Dockerfile.centos.template'',
           Arches = [Archamd64], IsStaging = False, OutputDir = [],
           TemplateOverrides = Map.empty \<rparr>"
  have i: "intVer ''3.1.0x'' = Inr (0, Some ErrSyntax)"
    by (simp add: eval_defs)
  have g: "generateOneDockerfile EditionEnterprise ProductSyncGw ''3.1.0x'' [] Map.empty = Inr ?v"
    by (simp add: generateOneDockerfile_def eval_defs product_defs)
  have f: "sgPackageFilename ?v = Inr ''couchbase-sync-gateway-enterprise_3.1.0x_@@ARCH@@.rpm''"
    by (simp add: sgPackageFilename_def i bindE_simps custom_defs product_defs
        ToLower_def lowerChar_def)
  have d: "dockerBaseImage ?v = Inr ''centos:centos7''"
    by (simp add: dockerBaseImage_def i bindE_simps HasPrefix_def)
  show ?thesis
    using i f d by (simp add: g bindE_simps)
qed

end
